theory Spec2Isabelle
  imports Main
begin

section \<open>The ClickHouse converter of sqlc (internal/engine/clickhouse/convert.go)\<close>

text \<open>
  The converter maps a parse tree of the ClickHouse parser (package \<open>chparser\<close>) to
  sqlc's own syntax tree (package \<open>ast\<close>). Both packages are libraries that the file
  imports; their type declarations are written here from the fields that convert.go
  reads and writes. Go strings are byte sequences, so they are \<open>string\<close>; Go's \<open>int\<close>
  and \<open>Pos\<close> are \<open>int\<close> (no computation of the converter comes near 64 bits: a
  position is an offset into the source text, and the parameter counter grows by one
  for each marker of the statement).
\<close>

subsection \<open>The Go standard library, as far as the converter calls it\<close>

text \<open>
  \<open>strings.ToLower\<close> and \<open>strings.ToUpper\<close> map an ASCII-only string byte by byte
  (the 26 letters, every other byte stays) and hand every other string to the Unicode
  case tables; \<open>strconv.ParseFloat\<close>
  decides whether a text is a 64-bit floating-point literal. The Unicode tables and the
  float parser are not part of the repository: they are the three fields of
  \<open>go_lib\<close>, and every definition that reaches them takes a \<open>go_lib\<close> as its first
  argument.
\<close>

record go_lib =
  unicode_ToLower :: "string \<Rightarrow> string"
  unicode_ToUpper :: "string \<Rightarrow> string"
  ParseFloat_ok :: "string \<Rightarrow> bool"

definition isASCII :: "char \<Rightarrow> bool" where
  "isASCII c = ((of_char c :: nat) < 128)"

definition lowerASCII :: "char \<Rightarrow> char" where
  "lowerASCII c =
     (case map_of (zip ''ABCDEFGHIJKLMNOPQRSTUVWXYZ'' ''abcdefghijklmnopqrstuvwxyz'') c of
        Some l \<Rightarrow> l
      | None \<Rightarrow> c)"

definition upperASCII :: "char \<Rightarrow> char" where
  "upperASCII c =
     (case map_of (zip ''abcdefghijklmnopqrstuvwxyz'' ''ABCDEFGHIJKLMNOPQRSTUVWXYZ'') c of
        Some u \<Rightarrow> u
      | None \<Rightarrow> c)"

definition strings_ToLower :: "go_lib \<Rightarrow> string \<Rightarrow> string" where
  "strings_ToLower L s =
     (if list_all isASCII s then map lowerASCII s else unicode_ToLower L s)"

definition strings_ToUpper :: "go_lib \<Rightarrow> string \<Rightarrow> string" where
  "strings_ToUpper L s =
     (if list_all isASCII s then map upperASCII s else unicode_ToUpper L s)"

definition strings_HasPrefix :: "string \<Rightarrow> string \<Rightarrow> bool" where
  "strings_HasPrefix s p = (take (length p) s = p)"

definition strings_TrimPrefix :: "string \<Rightarrow> string \<Rightarrow> string" where
  "strings_TrimPrefix s p = (if strings_HasPrefix s p then drop (length p) s else s)"

fun strings_Contains :: "string \<Rightarrow> string \<Rightarrow> bool" where
  "strings_Contains [] sub = (sub = [])"
| "strings_Contains (c # cs) sub =
     (strings_HasPrefix (c # cs) sub \<or> strings_Contains cs sub)"

definition strings_ContainsAny :: "string \<Rightarrow> string \<Rightarrow> bool" where
  "strings_ContainsAny s chars = list_ex (\<lambda>c. c \<in> set chars) s"

text \<open>
  \<open>strconv.ParseInt(s, 10, 64)\<close>: an optional sign, then one or more decimal digits
  and nothing else; the value has to fit \<open>int64\<close>. \<open>None\<close> is a non-nil \<open>err\<close>.
\<close>

definition isDigit :: "char \<Rightarrow> bool" where
  "isDigit c = (48 \<le> (of_char c :: nat) \<and> (of_char c :: nat) \<le> 57)"

definition ParseUint :: "string \<Rightarrow> int option" where
  "ParseUint s =
     (if s = [] \<or> \<not> list_all isDigit s then None
      else Some (foldl (\<lambda>n c. 10 * n + (int (of_char c) - 48)) 0 s))"

definition ParseInt :: "string \<Rightarrow> int option" where
  "ParseInt s =
     (case s of
        [] \<Rightarrow> None
      | c # r \<Rightarrow>
          (let neg = (c = CHR ''-'');
               body = (if c = CHR ''+'' \<or> c = CHR ''-'' then r else s)
           in case ParseUint body of
                None \<Rightarrow> None
              | Some un \<Rightarrow>
                  if \<not> neg \<and> un \<ge> 2 ^ 63 then None
                  else if neg \<and> un > 2 ^ 63 then None
                  else Some (if neg then - un else un)))"

subsection \<open>The parse tree of the ClickHouse parser\<close>

text \<open>
  One type for each struct of \<open>chparser\<close> that the converter looks into, with the fields
  it reads; \<open>'e\<close> stands for the interface \<open>chparser.Expr\<close>, which is defined last.
  A pointer that the code compares with \<open>nil\<close> is an \<open>option\<close>. A pointer that the code
  follows without a check is the struct itself: the parser always fills it in, and a
  \<open>nil\<close> there is outside the input type. The position that a node's method \<open>Pos()\<close>
  returns is a field of the node.
\<close>

type_synonym Pos = int

datatype ch_Ident = ch_Ident (Id_Name: string) (Id_Pos: Pos)

datatype ch_TableIdentifier =
  ch_TableIdentifier (TI_Database: "ch_Ident option") (TI_Table: "ch_Ident option") (TI_Pos: Pos)

datatype ch_NestedIdentifier =
  ch_NestedIdentifier (NI_Ident: "ch_Ident option") (NI_DotIdent: "ch_Ident option") (NI_Pos: Pos)

datatype ch_NumberLiteral = ch_NumberLiteral (Num_Literal: string) (Num_Pos: Pos)

datatype ch_StringLiteral = ch_StringLiteral (Str_Literal: string) (Str_Pos: Pos)

text \<open>The interface \<open>ColumnType\<close>, seen through its method \<open>Type()\<close>.\<close>

datatype ch_ColumnType = ch_ColumnType (CT_Type: string)

text \<open>\<open>NotNull\<close> is a pointer that is only compared with \<open>nil\<close>: the field says whether it is set.\<close>

datatype ch_ColumnDef =
  ch_ColumnDef (CD_Name: "ch_NestedIdentifier option") (CD_Type: "ch_ColumnType option")
    (CD_NotNull: bool)

datatype ch_ColumnNamesExpr = ch_ColumnNamesExpr (CN_ColumnNames: "ch_NestedIdentifier list")

datatype 'e ch_SelectItem = ch_SelectItem (SI_Expr: 'e) (SI_Alias: "ch_Ident option") (SI_Pos: Pos)
datatype 'e ch_FromClause = ch_FromClause (FC_Expr: 'e)
datatype 'e ch_WhereClause = ch_WhereClause (WC_Expr: 'e)
datatype 'e ch_GroupByClause = ch_GroupByClause (GB_Expr: 'e)
datatype 'e ch_HavingClause = ch_HavingClause (HC_Expr: 'e)
datatype 'e ch_OrderByClause = ch_OrderByClause (OB_Items: "'e list")
datatype 'e ch_LimitClause = ch_LimitClause (LC_Limit: 'e) (LC_Offset: 'e)
datatype 'e ch_CTEStmt = ch_CTEStmt (CTE_Expr: 'e) (CTE_Alias: 'e) (CTE_Pos: Pos)
datatype 'e ch_WithClause = ch_WithClause (With_CTEs: "'e ch_CTEStmt option list") (With_Pos: Pos)
datatype 'e ch_ArrayJoinClause = ch_ArrayJoinClause (AJ_Type: string) (AJ_Expr: 'e)

datatype 'e ch_SelectQuery = ch_SelectQuery
  (SQ_SelectItems: "'e ch_SelectItem list")
  (SQ_From: "'e ch_FromClause option")
  (SQ_Where: "'e ch_WhereClause option")
  (SQ_GroupBy: "'e ch_GroupByClause option")
  (SQ_Having: "'e ch_HavingClause option")
  (SQ_OrderBy: "'e ch_OrderByClause option")
  (SQ_With: "'e ch_WithClause option")
  (SQ_ArrayJoin: "'e ch_ArrayJoinClause option")
  (SQ_HasDistinct: bool)
  (SQ_Limit: "'e ch_LimitClause option")
  (SQ_UnionAll: "'e ch_SelectQuery option")
  (SQ_UnionDistinct: "'e ch_SelectQuery option")
  (SQ_Except: "'e ch_SelectQuery option")

datatype 'e ch_AssignmentValues = ch_AssignmentValues (AV_Values: "'e list")

datatype 'e ch_InsertStmt = ch_InsertStmt
  (IS_Table: 'e)
  (IS_ColumnNames: "ch_ColumnNamesExpr option")
  (IS_Values: "'e ch_AssignmentValues list")
  (IS_SelectExpr: "'e ch_SelectQuery option")

datatype 'e ch_TableSchemaClause = ch_TableSchemaClause (TS_Columns: "'e list")

datatype 'e ch_CreateTable = ch_CreateTable
  (CrT_Name: "ch_TableIdentifier option")
  (CrT_IfNotExists: bool)
  (CrT_TableSchema: "'e ch_TableSchemaClause option")

datatype 'e ch_CreateDatabase = ch_CreateDatabase (CrD_Name: 'e) (CrD_IfNotExists: bool)
datatype 'e ch_ColumnExpr = ch_ColumnExpr (CE_Expr: 'e)
datatype 'e ch_ColumnExprList = ch_ColumnExprList (CL_Items: "'e list")
datatype 'e ch_ParamExprList = ch_ParamExprList (PL_Items: "'e ch_ColumnExprList option")

datatype 'e ch_FunctionExpr =
  ch_FunctionExpr (Fn_Name: ch_Ident) (Fn_Params: "'e ch_ParamExprList option") (Fn_Pos: Pos)

datatype 'e ch_BinaryOperation =
  ch_BinaryOperation (BO_Operation: string) (BO_LeftExpr: 'e) (BO_RightExpr: 'e) (BO_Pos: Pos)

datatype 'e ch_OrderExpr = ch_OrderExpr (OE_Expr: 'e) (OE_Direction: string) (OE_Pos: Pos)
datatype 'e ch_AliasExpr = ch_AliasExpr (AE_Alias: 'e)
datatype 'e ch_TableExpr = ch_TableExpr (TE_Expr: 'e) (TE_Alias: "'e ch_AliasExpr option")
datatype 'e ch_JoinTableExpr = ch_JoinTableExpr (JT_Table: "'e ch_TableExpr option")

datatype 'e ch_JoinExpr =
  ch_JoinExpr (JE_Left: 'e) (JE_Right: 'e) (JE_Modifiers: "string list") (JE_Constraints: 'e)

datatype 'e ch_CastExpr = ch_CastExpr (Cast_Expr: 'e) (Cast_AsType: 'e) (Cast_Pos: Pos)
datatype 'e ch_WhenClause = ch_WhenClause (When_When: 'e) (When_Then: 'e)

datatype 'e ch_CaseExpr =
  ch_CaseExpr (Case_Expr: 'e) (Case_Whens: "'e ch_WhenClause option list") (Case_Else: 'e)
    (Case_Pos: Pos)

datatype 'e ch_WindowFunctionExpr =
  ch_WindowFunctionExpr (WF_Function: "'e ch_FunctionExpr") (WF_OverExpr: 'e)

datatype 'e ch_PartitionByClause = ch_PartitionByClause (PB_Expr: 'e)

datatype 'e ch_WindowExpr =
  ch_WindowExpr (WE_PartitionBy: "'e ch_PartitionByClause option")
    (WE_OrderBy: "'e ch_OrderByClause option") (WE_Pos: Pos)

datatype 'e ch_IsNullExpr = ch_IsNullExpr (IN_Expr: 'e) (IN_Pos: Pos)
datatype 'e ch_IsNotNullExpr = ch_IsNotNullExpr (INN_Expr: 'e) (INN_Pos: Pos)
datatype 'e ch_UnaryExpr = ch_UnaryExpr (UE_Kind: string) (UE_Expr: 'e) (UE_Pos: Pos)
datatype 'e ch_KeyValue = ch_KeyValue (KV_Key: ch_StringLiteral) (KV_Value: 'e)
datatype 'e ch_MapLiteral = ch_MapLiteral (ML_KeyValues: "'e ch_KeyValue list") (ML_Pos: Pos)

text \<open>
  The interface \<open>chparser.Expr\<close>: \<open>NilExpr\<close> is the nil interface; every other value
  is a pointer to a node of some kind. The kinds that \<open>convert\<close> checks for \<open>nil\<close> carry
  an \<open>option\<close> (\<open>None\<close>: a nil pointer of that kind inside the interface). The
  statement kinds of which the converter reads no field carry no data. \<open>E_Other\<close> is
  every kind of the parser that convert.go never names, with the name of its Go type.
\<close>

datatype Expr =
    NilExpr
  | E_SelectQuery "Expr ch_SelectQuery"
  | E_InsertStmt "Expr ch_InsertStmt"
  | E_AlterTable "unit option"
  | E_CreateTable "Expr ch_CreateTable option"
  | E_CreateDatabase "Expr ch_CreateDatabase option"
  | E_DropStmt "unit option"
  | E_OptimizeStmt "unit option"
  | E_DescribeStmt "unit option"
  | E_ExplainStmt "unit option"
  | E_ShowStmt "unit option"
  | E_TruncateTable "unit option"
  | E_Ident ch_Ident
  | E_ColumnExpr "Expr ch_ColumnExpr"
  | E_FunctionExpr "Expr ch_FunctionExpr"
  | E_BinaryOperation "Expr ch_BinaryOperation"
  | E_NumberLiteral "ch_NumberLiteral option"
  | E_StringLiteral ch_StringLiteral
  | E_QueryParam Pos
  | E_NestedIdentifier ch_NestedIdentifier
  | E_OrderExpr "Expr ch_OrderExpr option"
  | E_PlaceHolder Pos
  | E_JoinTableExpr "Expr ch_JoinTableExpr option"
  | E_CastExpr "Expr ch_CastExpr option"
  | E_CaseExpr "Expr ch_CaseExpr option"
  | E_WindowFunctionExpr "Expr ch_WindowFunctionExpr option"
  | E_IsNullExpr "Expr ch_IsNullExpr option"
  | E_IsNotNullExpr "Expr ch_IsNotNullExpr option"
  | E_UnaryExpr "Expr ch_UnaryExpr option"
  | E_MapLiteral "Expr ch_MapLiteral option"
  | E_ParamExprList "Expr ch_ParamExprList option"
  | E_TableExpr "Expr ch_TableExpr option"
  | E_JoinExpr "Expr ch_JoinExpr"
  | E_TableIdentifier ch_TableIdentifier
  | E_SelectItem "Expr ch_SelectItem"
  | E_ColumnExprList "Expr ch_ColumnExprList"
  | E_WindowExpr "Expr ch_WindowExpr option"
  | E_ColumnDef "ch_ColumnDef option"
  | E_ColumnType ch_ColumnType
  | E_Other string

subsection \<open>sqlc's syntax tree\<close>

text \<open>
  The nodes of package \<open>ast\<close> that the converter builds, with the fields it sets; a
  field it leaves out has Go's zero value. \<open>*ast.List\<close> is a \<open>Node list option\<close>
  (\<open>None\<close>: the nil pointer). Every node is a pointer in Go. The converter links one
  kind of node to itself, \<open>ast.SelectStmt\<close> (convertSelectQuery), so that kind lives in
  a store and \<open>N_SelectStmt a\<close> is the pointer to the statement at address \<open>a\<close>. All
  other nodes are built once and never shared, and are values.
\<close>

type_synonym addr = nat

datatype ast_SetOperation = ast_None | ast_Union | ast_Intersect | ast_Except
datatype ast_JoinType = ast_JoinTypeInner | ast_JoinTypeLeft | ast_JoinTypeRight | ast_JoinTypeFull
datatype ast_SortByDir = ast_SortByDirDefault | ast_SortByDirAsc | ast_SortByDirDesc

datatype ast_Alias = ast_Alias (Aliasname: "string option")

datatype ast_RangeVar =
  ast_RangeVar (Schemaname: "string option") (Relname: "string option") (RV_Location: int)

datatype ast_TableName = ast_TableName (TN_Schema: string) (TN_Name: string)
datatype ast_FuncName = ast_FuncName (FN_Schema: string) (FN_Name: string)
datatype 'n ast_TypeName = ast_TypeName (Ty_Name: string) (Ty_Names: "'n list option")

datatype 'n ast_ColumnDef =
  ast_ColumnDef (Colname: string) (Col_TypeName: "'n ast_TypeName option") (IsNotNull: bool)

datatype 'n ast_WindowDef =
  ast_WindowDef (PartitionClause: "'n list option") (OrderClause: "'n list option")
    (WD_Location: int)

datatype 'n ast_WithClause = ast_WithClause (Ctes: "'n list option") (With_Location: int)

datatype 'n ast_CommonTableExpr =
  ast_CommonTableExpr (Ctename: "string option") (Ctequery: 'n) (CTE_Location: int)

datatype Node =
    NodeNil
  | ast_TODO
  | ast_String string
  | ast_Integer int
  | ast_Float string
  | ast_List "Node list"
  | N_SelectStmt addr
  | ast_ResTarget "string option" Node int
  | ast_RangeSubselect Node "ast_Alias option"
  | N_RangeVar ast_RangeVar
  | ast_JoinExpr Node Node ast_JoinType Node
  | N_CommonTableExpr "Node ast_CommonTableExpr option"
  | ast_InsertStmt "ast_RangeVar option" "Node list option" "Node list option" Node
  | ast_CreateTableStmt "ast_TableName option" bool "Node ast_ColumnDef list"
  | N_ColumnDef "Node ast_ColumnDef"
  | ast_CreateSchemaStmt "string option" bool
  | ast_FuncCall "ast_FuncName option" "Node list option" "Node list option" int
      "Node ast_WindowDef option"
  | ast_A_Expr nat "Node list option" Node Node int
  | ast_A_Const Node int
  | ast_ParamRef int int bool
  | ast_ColumnRef "Node list option" int
  | ast_SortBy Node ast_SortByDir int
  | ast_TypeCast Node "Node ast_TypeName option" int
  | ast_CaseExpr Node "Node list option" Node int
  | ast_NullTest Node nat int
  | ast_RangeFunction bool "Node list option" "ast_Alias option"

text \<open>
  The constructor arguments follow the order in which convert.go writes the fields:
  \<open>ast_ResTarget Name Val Location\<close>, \<open>ast_RangeSubselect Subquery Alias\<close>,
  \<open>ast_JoinExpr Larg Rarg Jointype Quals\<close>,
  \<open>ast_InsertStmt Relation Cols ReturningList SelectStmt\<close>,
  \<open>ast_CreateTableStmt Name IfNotExists Cols\<close>, \<open>ast_CreateSchemaStmt Name IfNotExists\<close>,
  \<open>ast_FuncCall Func Funcname Args Location Over\<close>,
  \<open>ast_A_Expr Kind Name Lexpr Rexpr Location\<close>, \<open>ast_A_Const Val Location\<close>,
  \<open>ast_ParamRef Number Location Dollar\<close>, \<open>ast_ColumnRef Fields Location\<close>,
  \<open>ast_SortBy Node SortbyDir Location\<close>, \<open>ast_TypeCast Arg TypeName Location\<close>,
  \<open>ast_CaseExpr Arg Args Defresult Location\<close>, \<open>ast_NullTest Arg Nulltesttype Location\<close>,
  \<open>ast_RangeFunction Lateral Functions Alias\<close>.
\<close>

record ast_SelectStmt =
  TargetList :: "Node list option"
  FromClause :: "Node list option"
  WhereClause :: Node
  GroupClause :: "Node list option"
  HavingClause :: Node
  SortClause :: "Node list option"
  WithClause :: "Node ast_WithClause option"
  DistinctClause :: "Node list option"
  LimitCount :: Node
  LimitOffset :: Node
  Op :: ast_SetOperation
  All_flag :: bool
  Larg :: "addr option"
  Rarg :: "addr option"
  ValuesLists :: "Node list option"

text \<open>\<open>&ast.SelectStmt{}\<close>: every field at its zero value.\<close>

definition zero_SelectStmt :: ast_SelectStmt where
  "zero_SelectStmt =
     \<lparr>TargetList = None, FromClause = None, WhereClause = NodeNil, GroupClause = None,
      HavingClause = NodeNil, SortClause = None, WithClause = None, DistinctClause = None,
      LimitCount = NodeNil, LimitOffset = NodeNil, Op = ast_None, All_flag = False,
      Larg = None, Rarg = None, ValuesLists = None\<rparr>"

subsection \<open>The converter\<close>

text \<open>
  \<open>cc\<close> is the converter: its one field counts the parameter markers converted so far.
  The state of a conversion is the converter and the store of \<open>ast.SelectStmt\<close> nodes
  (the address of a node is its index). A method that neither reads nor writes the
  counter and allocates no \<open>ast.SelectStmt\<close> is a function without state. \<open>todo\<close> also
  writes two log lines when debugging is on; the log is not modelled.
\<close>

record cc =
  paramCount :: int

type_synonym store = "ast_SelectStmt list"
type_synonym state = "cc \<times> store"

definition next_addr :: "state \<Rightarrow> addr" where
  "next_addr s = length (snd s)"

definition new_SelectStmt :: "state \<Rightarrow> ast_SelectStmt \<Rightarrow> addr \<times> state" where
  "new_SelectStmt s v = (next_addr s, (fst s, snd s @ [v]))"

text \<open>A loop that appends the conversion of each element: the state runs through it.\<close>

fun mapS :: "('s \<Rightarrow> 'a \<Rightarrow> 'b \<times> 's) \<Rightarrow> 's \<Rightarrow> 'a list \<Rightarrow> 'b list \<times> 's" where
  "mapS f s [] = ([], s)"
| "mapS f s (x # xs) =
     (case f s x of (y, s1) \<Rightarrow> (case mapS f s1 xs of (ys, s2) \<Rightarrow> (y # ys, s2)))"

lemma mapS_cong [fundef_cong]:
  "s = t \<Longrightarrow> xs = ys \<Longrightarrow> (\<And>x u. x \<in> set ys \<Longrightarrow> f u x = g u x) \<Longrightarrow> mapS f s xs = mapS g t ys"
  by (induction ys arbitrary: s t xs) (auto split: prod.splits)

definition todo :: "Expr \<Rightarrow> Node" where
  "todo n = ast_TODO"

definition "identifier" :: "go_lib \<Rightarrow> string \<Rightarrow> string" where
  "identifier L id' = strings_ToLower L id'"

definition NewIdentifier :: "go_lib \<Rightarrow> string \<Rightarrow> Node" where
  "NewIdentifier L t = ast_String (identifier L t)"

definition convertTableIdentifier :: "go_lib \<Rightarrow> ch_TableIdentifier \<Rightarrow> ast_RangeVar" where
  "convertTableIdentifier L ident' =
     (let schema = (case TI_Database ident' of None \<Rightarrow> None
                    | Some db \<Rightarrow> Some (identifier L (Id_Name db)));
          table = (case TI_Table ident' of None \<Rightarrow> None
                   | Some t \<Rightarrow> Some (identifier L (Id_Name t)))
      in ast_RangeVar schema table (TI_Pos ident'))"

definition parseJoinType :: "go_lib \<Rightarrow> string \<Rightarrow> ast_JoinType" where
  "parseJoinType L joinType =
     (let upperType = strings_ToUpper L joinType
      in if strings_Contains upperType ''LEFT'' then ast_JoinTypeLeft
         else if strings_Contains upperType ''RIGHT'' then ast_JoinTypeRight
         else if strings_Contains upperType ''FULL'' then ast_JoinTypeFull
         else if strings_Contains upperType ''INNER'' then ast_JoinTypeInner
         else ast_JoinTypeInner)"

definition convertTableExprToRangeVar :: "go_lib \<Rightarrow> Expr \<Rightarrow> ast_RangeVar" where
  "convertTableExprToRangeVar L expr =
     (case expr of
        E_TableIdentifier tableIdent \<Rightarrow> convertTableIdentifier L tableIdent
      | E_Ident ident' \<Rightarrow> ast_RangeVar None (Some (identifier L (Id_Name ident'))) (Id_Pos ident')
      | _ \<Rightarrow> ast_RangeVar None None 0)"

definition convertColumnNames :: "go_lib \<Rightarrow> ch_ColumnNamesExpr option \<Rightarrow> Node list option" where
  "convertColumnNames L colNames =
     (case colNames of
        None \<Rightarrow> Some []
      | Some cn \<Rightarrow>
          Some (concat (map (\<lambda>col.
            (case NI_Ident col of None \<Rightarrow> []
             | Some i \<Rightarrow> [ast_String (identifier L (Id_Name i))]) @
            (case NI_DotIdent col of None \<Rightarrow> []
             | Some d \<Rightarrow> [ast_String (identifier L (Id_Name d))]))
            (CN_ColumnNames cn))))"


text \<open>
  Go's type assertion \<open>x, ok := e.(*T)\<close>: \<open>Some x\<close> when the interface value holds a
  \<open>*T\<close>, \<open>None\<close> when \<open>ok\<close> is false. Where the kind can hold a nil pointer, \<open>x\<close> is
  itself an \<open>option\<close>.
\<close>

definition as_TableExpr :: "Expr \<Rightarrow> Expr ch_TableExpr option option" where
  "as_TableExpr e = (case e of E_TableExpr x \<Rightarrow> Some x | _ \<Rightarrow> None)"

definition as_JoinExpr :: "Expr \<Rightarrow> Expr ch_JoinExpr option" where
  "as_JoinExpr e = (case e of E_JoinExpr x \<Rightarrow> Some x | _ \<Rightarrow> None)"

definition as_TableIdentifier :: "Expr \<Rightarrow> ch_TableIdentifier option" where
  "as_TableIdentifier e = (case e of E_TableIdentifier x \<Rightarrow> Some x | _ \<Rightarrow> None)"

definition as_SelectQuery :: "Expr \<Rightarrow> Expr ch_SelectQuery option" where
  "as_SelectQuery e = (case e of E_SelectQuery x \<Rightarrow> Some x | _ \<Rightarrow> None)"

definition as_Ident :: "Expr \<Rightarrow> ch_Ident option" where
  "as_Ident e = (case e of E_Ident x \<Rightarrow> Some x | _ \<Rightarrow> None)"

definition as_ColumnType :: "Expr \<Rightarrow> ch_ColumnType option" where
  "as_ColumnType e = (case e of E_ColumnType x \<Rightarrow> Some x | _ \<Rightarrow> None)"

definition as_WindowExpr :: "Expr \<Rightarrow> Expr ch_WindowExpr option option" where
  "as_WindowExpr e = (case e of E_WindowExpr x \<Rightarrow> Some x | _ \<Rightarrow> None)"

definition as_ColumnExpr :: "Expr \<Rightarrow> Expr ch_ColumnExpr option" where
  "as_ColumnExpr e = (case e of E_ColumnExpr x \<Rightarrow> Some x | _ \<Rightarrow> None)"

definition as_ColumnExprList :: "Expr \<Rightarrow> Expr ch_ColumnExprList option" where
  "as_ColumnExprList e = (case e of E_ColumnExprList x \<Rightarrow> Some x | _ \<Rightarrow> None)"

definition as_SelectItem :: "Expr \<Rightarrow> Expr ch_SelectItem option" where
  "as_SelectItem e = (case e of E_SelectItem x \<Rightarrow> Some x | _ \<Rightarrow> None)"

definition as_ColumnDef :: "Expr \<Rightarrow> ch_ColumnDef option option" where
  "as_ColumnDef e = (case e of E_ColumnDef x \<Rightarrow> Some x | _ \<Rightarrow> None)"

text \<open>
  \<open>funcCall.Over = overClause\<close> under the assertion that \<open>funcCall\<close> is a
  \<open>*ast.FuncCall\<close>; any other node is returned as it is (convertWindowFunctionExpr).
\<close>

definition set_Over :: "Node \<Rightarrow> Node ast_WindowDef option \<Rightarrow> Node" where
  "set_Over funcCall overClause =
     (case funcCall of
        ast_FuncCall func funcname args location over \<Rightarrow>
          ast_FuncCall func funcname args location overClause
      | _ \<Rightarrow> funcCall)"

text \<open>\<open>mapClickHouseType\<close>: the first case of the switch that holds decides.\<close>

definition mapClickHouseType :: "go_lib \<Rightarrow> string \<Rightarrow> string" where
  "mapClickHouseType L chType0 =
     (let chType = strings_ToLower L chType0
      in if strings_HasPrefix chType ''uint8'' then ''uint8''
         else if strings_HasPrefix chType ''uint16'' then ''uint16''
         else if strings_HasPrefix chType ''uint32'' then ''uint32''
         else if strings_HasPrefix chType ''uint64'' then ''uint64''
         else if strings_HasPrefix chType ''int8'' then ''int8''
         else if strings_HasPrefix chType ''int16'' then ''int16''
         else if strings_HasPrefix chType ''int32'' then ''int32''
         else if strings_HasPrefix chType ''int64'' then ''int64''
         else if strings_HasPrefix chType ''int128'' then ''numeric''
         else if strings_HasPrefix chType ''int256'' then ''numeric''
         else if strings_HasPrefix chType ''float32'' then ''real''
         else if strings_HasPrefix chType ''float64'' then ''double precision''
         else if strings_HasPrefix chType ''decimal'' then ''numeric''
         else if chType = ''string'' then ''text''
         else if strings_HasPrefix chType ''fixedstring'' then ''varchar''
         else if chType = ''date'' then ''date''
         else if chType = ''date32'' then ''date''
         else if chType = ''datetime'' then ''timestamp''
         else if chType = ''datetime64'' then ''timestamp''
         else if chType = ''bool'' then ''boolean''
         else if chType = ''uuid'' then ''uuid''
         else if strings_HasPrefix chType ''array'' then ''text[]''
         else if strings_Contains chType ''json'' then ''jsonb''
         else ''text'')"

definition convertColumnType :: "go_lib \<Rightarrow> ch_ColumnType option \<Rightarrow> Node ast_TypeName" where
  "convertColumnType L colType =
     (case colType of
        None \<Rightarrow> ast_TypeName ''text'' (Some [NewIdentifier L ''text''])
      | Some ct \<Rightarrow>
          (let typeName = CT_Type ct;
               mappedType = mapClickHouseType L typeName
           in ast_TypeName mappedType (Some [NewIdentifier L mappedType])))"

definition convertColumnDef :: "go_lib \<Rightarrow> ch_ColumnDef option \<Rightarrow> Node" where
  "convertColumnDef L col =
     (case col of
        None \<Rightarrow> ast_TODO
      | Some cd \<Rightarrow>
          (let colName =
                 (case CD_Name cd of
                    None \<Rightarrow> []
                  | Some nm \<Rightarrow>
                      (case NI_Ident nm of
                         Some i \<Rightarrow> identifier L (Id_Name i)
                       | None \<Rightarrow>
                           (case NI_DotIdent nm of
                              Some d \<Rightarrow> identifier L (Id_Name d)
                            | None \<Rightarrow> [])));
               typeName =
                 (case CD_Type cd of
                    None \<Rightarrow> None
                  | Some t \<Rightarrow> Some (convertColumnType L (Some t)))
           in N_ColumnDef (ast_ColumnDef colName typeName (CD_NotNull cd))))"

text \<open>
  \<open>convertCreateTable\<close>: \<open>fallback\<close> is the database slot when the second \<open>if\<close> of the
  source fires (no table name so far, and a name with a database slot).
\<close>

definition convertCreateTable :: "go_lib \<Rightarrow> Expr ch_CreateTable option \<Rightarrow> Node" where
  "convertCreateTable L stmt =
     (case stmt of
        None \<Rightarrow> ast_TODO
      | Some st \<Rightarrow>
          (let schema =
                 (case CrT_Name st of
                    None \<Rightarrow> None
                  | Some nm \<Rightarrow>
                      (case TI_Database nm of
                         None \<Rightarrow> None
                       | Some db \<Rightarrow> Some (identifier L (Id_Name db))));
               table =
                 (case CrT_Name st of
                    None \<Rightarrow> None
                  | Some nm \<Rightarrow>
                      (case TI_Table nm of
                         None \<Rightarrow> None
                       | Some t \<Rightarrow> Some (identifier L (Id_Name t))));
               fallback =
                 (case CrT_Name st of
                    None \<Rightarrow> None
                  | Some nm \<Rightarrow> if table = None then TI_Database nm else None);
               schema = (case fallback of None \<Rightarrow> schema | Some db \<Rightarrow> None);
               table =
                 (case fallback of
                    None \<Rightarrow> table
                  | Some db \<Rightarrow> Some (identifier L (Id_Name db)));
               tableName =
                 ast_TableName (case schema of None \<Rightarrow> [] | Some x \<Rightarrow> x)
                   (case table of None \<Rightarrow> [] | Some x \<Rightarrow> x);
               cols =
                 (case CrT_TableSchema st of
                    None \<Rightarrow> []
                  | Some ts \<Rightarrow>
                      concat (map (\<lambda>col.
                        (case col of
                           E_ColumnDef colDef \<Rightarrow>
                             (case convertColumnDef L colDef of
                                N_ColumnDef converted \<Rightarrow> [converted]
                              | _ \<Rightarrow> [])
                         | _ \<Rightarrow> [])) (TS_Columns ts)))
           in ast_CreateTableStmt (Some tableName) (CrT_IfNotExists st) cols))"

definition convertCreateDatabase :: "go_lib \<Rightarrow> Expr ch_CreateDatabase option \<Rightarrow> Node" where
  "convertCreateDatabase L stmt =
     (case stmt of
        None \<Rightarrow> ast_TODO
      | Some st \<Rightarrow>
          (let schemaName =
                 (case CrD_Name st of
                    E_Ident ident' \<Rightarrow> identifier L (Id_Name ident')
                  | _ \<Rightarrow> [])
           in ast_CreateSchemaStmt (Some schemaName) (CrD_IfNotExists st)))"

definition convertDropStmt :: "unit option \<Rightarrow> Node" where
  "convertDropStmt stmt = (case stmt of None \<Rightarrow> ast_TODO | Some _ \<Rightarrow> ast_TODO)"

definition convertAlterTable :: "unit option \<Rightarrow> Node" where
  "convertAlterTable stmt = (case stmt of None \<Rightarrow> ast_TODO | Some _ \<Rightarrow> ast_TODO)"

definition convertOptimizeStmt :: "unit option \<Rightarrow> Node" where
  "convertOptimizeStmt stmt = (case stmt of None \<Rightarrow> ast_TODO | Some _ \<Rightarrow> ast_TODO)"

definition convertDescribeStmt :: "unit option \<Rightarrow> Node" where
  "convertDescribeStmt stmt = (case stmt of None \<Rightarrow> ast_TODO | Some _ \<Rightarrow> ast_TODO)"

definition convertExplainStmt :: "unit option \<Rightarrow> Node" where
  "convertExplainStmt stmt = (case stmt of None \<Rightarrow> ast_TODO | Some _ \<Rightarrow> ast_TODO)"

definition convertShowStmt :: "unit option \<Rightarrow> Node" where
  "convertShowStmt stmt = (case stmt of None \<Rightarrow> ast_TODO | Some _ \<Rightarrow> ast_TODO)"

definition convertTruncateTable :: "unit option \<Rightarrow> Node" where
  "convertTruncateTable stmt = (case stmt of None \<Rightarrow> ast_TODO | Some _ \<Rightarrow> ast_TODO)"

definition convertIdent :: "go_lib \<Rightarrow> ch_Ident \<Rightarrow> Node" where
  "convertIdent L id' = ast_String (identifier L (Id_Name id'))"

text \<open>
  \<open>convertNumberLiteral\<close>: the integer is tried only when the text has none of the
  characters \<open>.\<close>, \<open>e\<close>, \<open>E\<close>; when it is not tried or fails, the float is tried; then 0.
\<close>

definition convertNumberLiteral :: "go_lib \<Rightarrow> ch_NumberLiteral option \<Rightarrow> Node" where
  "convertNumberLiteral L num =
     (case num of
        None \<Rightarrow> ast_A_Const (ast_Integer 0) 0
      | Some n \<Rightarrow>
          if Num_Literal n = [] then ast_A_Const (ast_Integer 0) 0
          else
            (let numStr = Num_Literal n
             in case (if \<not> strings_ContainsAny numStr ''.eE'' then ParseInt numStr
                      else None) of
                  Some ival \<Rightarrow> ast_A_Const (ast_Integer ival) (Num_Pos n)
                | None \<Rightarrow>
                    if ParseFloat_ok L numStr then ast_A_Const (ast_Float numStr) (Num_Pos n)
                    else ast_A_Const (ast_Integer 0) (Num_Pos n)))"

definition convertStringLiteral :: "ch_StringLiteral \<Rightarrow> Node" where
  "convertStringLiteral str =
     (let pos = Str_Pos str;
          pos = (if pos > 0 then pos - 1 else pos)
      in ast_A_Const (ast_String (Str_Literal str)) pos)"

definition convertQueryParam :: "cc \<Rightarrow> Pos \<Rightarrow> Node \<times> cc" where
  "convertQueryParam c param =
     (let c = c\<lparr>paramCount := paramCount c + 1\<rparr>
      in (ast_ParamRef (paramCount c) param False, c))"

definition convertNestedIdentifier :: "go_lib \<Rightarrow> ch_NestedIdentifier \<Rightarrow> Node" where
  "convertNestedIdentifier L nested =
     (let fields =
            (case NI_Ident nested of None \<Rightarrow> []
             | Some i \<Rightarrow> [ast_String (identifier L (Id_Name i))]) @
            (case NI_DotIdent nested of None \<Rightarrow> []
             | Some d \<Rightarrow> [ast_String (identifier L (Id_Name d))])
      in ast_ColumnRef (Some fields) (NI_Pos nested))"

definition convertPlaceHolder :: "cc \<Rightarrow> Pos \<Rightarrow> Node \<times> cc" where
  "convertPlaceHolder c ph =
     (let c = c\<lparr>paramCount := paramCount c + 1\<rparr>
      in (ast_ParamRef (paramCount c) ph False, c))"

text \<open>
  The node that \<open>convertArrayJoinItem\<close> builds around the converted array expression
  (the same in both of its branches, up to the alias).
\<close>

definition arrayJoinRangeFunction :: "Node \<Rightarrow> string \<Rightarrow> ast_Alias option \<Rightarrow> Node" where
  "arrayJoinRangeFunction arrayExpr joinType alias =
     (let funcCall = ast_FuncCall (Some (ast_FuncName [] ''arrayjoin'')) None
                       (Some [arrayExpr]) 0 None
      in ast_RangeFunction (joinType = ''LEFT'') (Some [funcCall]) alias)"

text \<open>The join type that \<open>convertJoinExpr\<close> reads off the modifiers.\<close>

definition joinTypeOfModifiers :: "go_lib \<Rightarrow> string list \<Rightarrow> string" where
  "joinTypeOfModifiers L mods =
     foldl (\<lambda>joinType m.
        (let modUpper = strings_ToUpper L m
         in if modUpper = ''LEFT'' \<or> modUpper = ''RIGHT'' \<or> modUpper = ''FULL''
               \<or> modUpper = ''INNER''
            then modUpper @ '' '' @ joinType else joinType)) ''JOIN'' mods"

text \<open>
  The methods of \<open>cc\<close> that call \<open>convert\<close>, in the order of the source. Where the
  source fills a struct literal, the fields are converted in the order they are written.
  \<open>convertSelectQuery\<close> always returns a \<open>*ast.SelectStmt\<close>; here it returns the
  address, and the type assertion on its result (for \<open>Rarg\<close>) is the identity. The
  statement \<open>selectStmt\<close> of the source is the record \<open>r\<close> here; it enters the store
  when it is complete, at the next free address, and that address is what
  \<open>selectStmt.Larg = selectStmt\<close> stores (Go allocates earlier; an address is only ever
  compared with another, so which free address it is makes no difference).
\<close>

function (sequential)
  convert :: "go_lib \<Rightarrow> state \<Rightarrow> Expr \<Rightarrow> Node \<times> state" and
  convertSelectQuery :: "go_lib \<Rightarrow> state \<Rightarrow> Expr ch_SelectQuery \<Rightarrow> addr \<times> state" and
  convertSelectItems ::
    "go_lib \<Rightarrow> state \<Rightarrow> Expr ch_SelectItem list \<Rightarrow> Node list option \<times> state" and
  convertSelectItem :: "go_lib \<Rightarrow> state \<Rightarrow> Expr ch_SelectItem \<Rightarrow> Node \<times> state" and
  convertFromClause ::
    "go_lib \<Rightarrow> state \<Rightarrow> Expr ch_FromClause option \<Rightarrow> Node list option \<times> state" and
  convertFromExpr :: "go_lib \<Rightarrow> state \<Rightarrow> Expr \<Rightarrow> Node \<times> state" and
  convertTableExpr :: "go_lib \<Rightarrow> state \<Rightarrow> Expr ch_TableExpr option \<Rightarrow> Node \<times> state" and
  convertJoinExpr :: "go_lib \<Rightarrow> state \<Rightarrow> Expr ch_JoinExpr \<Rightarrow> Node \<times> state" and
  convertWhereClause :: "go_lib \<Rightarrow> state \<Rightarrow> Expr ch_WhereClause option \<Rightarrow> Node \<times> state" and
  convertGroupByClause ::
    "go_lib \<Rightarrow> state \<Rightarrow> Expr ch_GroupByClause option \<Rightarrow> Node list option \<times> state" and
  convertHavingClause :: "go_lib \<Rightarrow> state \<Rightarrow> Expr ch_HavingClause option \<Rightarrow> Node \<times> state" and
  convertOrderByClause ::
    "go_lib \<Rightarrow> state \<Rightarrow> Expr ch_OrderByClause option \<Rightarrow> Node list option \<times> state" and
  convertLimitClause :: "go_lib \<Rightarrow> state \<Rightarrow> Expr ch_LimitClause option \<Rightarrow> Node \<times> state" and
  convertWithClause ::
    "go_lib \<Rightarrow> state \<Rightarrow> Expr ch_WithClause option \<Rightarrow> Node ast_WithClause option \<times> state" and
  convertCTE :: "go_lib \<Rightarrow> state \<Rightarrow> Expr ch_CTEStmt option \<Rightarrow> Node \<times> state" and
  convertInsertStmt :: "go_lib \<Rightarrow> state \<Rightarrow> Expr ch_InsertStmt \<Rightarrow> Node \<times> state" and
  convertValues ::
    "go_lib \<Rightarrow> state \<Rightarrow> Expr ch_AssignmentValues list \<Rightarrow> Node list option \<times> state" and
  convertColumnExpr :: "go_lib \<Rightarrow> state \<Rightarrow> Expr ch_ColumnExpr \<Rightarrow> Node \<times> state" and
  convertFunctionExpr :: "go_lib \<Rightarrow> state \<Rightarrow> Expr ch_FunctionExpr \<Rightarrow> Node \<times> state" and
  convertBinaryOperation :: "go_lib \<Rightarrow> state \<Rightarrow> Expr ch_BinaryOperation \<Rightarrow> Node \<times> state" and
  convertOrderExpr :: "go_lib \<Rightarrow> state \<Rightarrow> Expr ch_OrderExpr option \<Rightarrow> Node \<times> state" and
  convertJoinTableExpr :: "go_lib \<Rightarrow> state \<Rightarrow> Expr ch_JoinTableExpr option \<Rightarrow> Node \<times> state" and
  convertCastExpr :: "go_lib \<Rightarrow> state \<Rightarrow> Expr ch_CastExpr option \<Rightarrow> Node \<times> state" and
  convertCaseExpr :: "go_lib \<Rightarrow> state \<Rightarrow> Expr ch_CaseExpr option \<Rightarrow> Node \<times> state" and
  convertWindowFunctionExpr ::
    "go_lib \<Rightarrow> state \<Rightarrow> Expr ch_WindowFunctionExpr option \<Rightarrow> Node \<times> state" and
  convertWindowDef ::
    "go_lib \<Rightarrow> state \<Rightarrow> Expr ch_WindowExpr option \<Rightarrow> Node ast_WindowDef option \<times> state" and
  convertIsNullExpr :: "go_lib \<Rightarrow> state \<Rightarrow> Expr ch_IsNullExpr option \<Rightarrow> Node \<times> state" and
  convertIsNotNullExpr :: "go_lib \<Rightarrow> state \<Rightarrow> Expr ch_IsNotNullExpr option \<Rightarrow> Node \<times> state" and
  convertUnaryExpr :: "go_lib \<Rightarrow> state \<Rightarrow> Expr ch_UnaryExpr option \<Rightarrow> Node \<times> state" and
  convertMapLiteral :: "go_lib \<Rightarrow> state \<Rightarrow> Expr ch_MapLiteral option \<Rightarrow> Node \<times> state" and
  convertParamExprList :: "go_lib \<Rightarrow> state \<Rightarrow> Expr ch_ParamExprList option \<Rightarrow> Node \<times> state" and
  mergeArrayJoinIntoFrom ::
    "go_lib \<Rightarrow> state \<Rightarrow> Node list option \<Rightarrow> Expr ch_ArrayJoinClause option
       \<Rightarrow> Node list option \<times> state" and
  convertArrayJoinClause ::
    "go_lib \<Rightarrow> state \<Rightarrow> Expr ch_ArrayJoinClause option \<Rightarrow> Node \<times> state" and
  convertArrayJoinItem :: "go_lib \<Rightarrow> state \<Rightarrow> Expr \<Rightarrow> string \<Rightarrow> Node \<times> state"
where
  "convert L s NilExpr = (NodeNil, s)"
| "convert L s (E_SelectQuery n) =
     (case convertSelectQuery L s n of (a, s') \<Rightarrow> (N_SelectStmt a, s'))"
| "convert L s (E_InsertStmt n) = convertInsertStmt L s n"
| "convert L s (E_AlterTable n) = (convertAlterTable n, s)"
| "convert L s (E_CreateTable n) = (convertCreateTable L n, s)"
| "convert L s (E_CreateDatabase n) = (convertCreateDatabase L n, s)"
| "convert L s (E_DropStmt n) = (convertDropStmt n, s)"
| "convert L s (E_OptimizeStmt n) = (convertOptimizeStmt n, s)"
| "convert L s (E_DescribeStmt n) = (convertDescribeStmt n, s)"
| "convert L s (E_ExplainStmt n) = (convertExplainStmt n, s)"
| "convert L s (E_ShowStmt n) = (convertShowStmt n, s)"
| "convert L s (E_TruncateTable n) = (convertTruncateTable n, s)"
| "convert L s (E_Ident n) = (convertIdent L n, s)"
| "convert L s (E_ColumnExpr n) = convertColumnExpr L s n"
| "convert L s (E_FunctionExpr n) = convertFunctionExpr L s n"
| "convert L s (E_BinaryOperation n) = convertBinaryOperation L s n"
| "convert L s (E_NumberLiteral n) = (convertNumberLiteral L n, s)"
| "convert L s (E_StringLiteral n) = (convertStringLiteral n, s)"
| "convert L s (E_QueryParam n) =
     (case convertQueryParam (fst s) n of (r, c) \<Rightarrow> (r, (c, snd s)))"
| "convert L s (E_NestedIdentifier n) = (convertNestedIdentifier L n, s)"
| "convert L s (E_OrderExpr n) = convertOrderExpr L s n"
| "convert L s (E_PlaceHolder n) =
     (case convertPlaceHolder (fst s) n of (r, c) \<Rightarrow> (r, (c, snd s)))"
| "convert L s (E_JoinTableExpr n) = convertJoinTableExpr L s n"
| "convert L s (E_CastExpr n) = convertCastExpr L s n"
| "convert L s (E_CaseExpr n) = convertCaseExpr L s n"
| "convert L s (E_WindowFunctionExpr n) = convertWindowFunctionExpr L s n"
| "convert L s (E_IsNullExpr n) = convertIsNullExpr L s n"
| "convert L s (E_IsNotNullExpr n) = convertIsNotNullExpr L s n"
| "convert L s (E_UnaryExpr n) = convertUnaryExpr L s n"
| "convert L s (E_MapLiteral n) = convertMapLiteral L s n"
| "convert L s (E_ParamExprList n) = convertParamExprList L s n"
| "convert L s n = (todo n, s)"

| "convertSelectQuery L s (ch_SelectQuery selectItems from' where' groupBy having orderBy with'
       arrayJoin hasDistinct limit unionAll unionDistinct except) =
     (case convertSelectItems L s selectItems of (targetList, s1) \<Rightarrow>
      case convertFromClause L s1 from' of (fromClause, s2) \<Rightarrow>
      case convertWhereClause L s2 where' of (whereClause, s3) \<Rightarrow>
      case convertGroupByClause L s3 groupBy of (groupClause, s4) \<Rightarrow>
      case convertHavingClause L s4 having of (havingClause, s5) \<Rightarrow>
      case convertOrderByClause L s5 orderBy of (sortClause, s6) \<Rightarrow>
      case convertWithClause L s6 with' of (withClause, s7) \<Rightarrow>
      let r = zero_SelectStmt\<lparr>TargetList := targetList, FromClause := fromClause,
                WhereClause := whereClause, GroupClause := groupClause,
                HavingClause := havingClause, SortClause := sortClause,
                WithClause := withClause\<rparr> in
      case (case arrayJoin of
              None \<Rightarrow> (r, s7)
            | Some aj \<Rightarrow>
                (case mergeArrayJoinIntoFrom L s7 (FromClause r) (Some aj) of
                   (merged, t) \<Rightarrow> (r\<lparr>FromClause := merged\<rparr>, t))) of (r, s8) \<Rightarrow>
      let r = (if hasDistinct then r\<lparr>DistinctClause := Some []\<rparr> else r) in
      case (case limit of
              None \<Rightarrow> (r, s8)
            | Some lc \<Rightarrow>
                (case convertLimitClause L s8 (Some lc) of
                   (limitCount, t) \<Rightarrow>
                     if LC_Offset lc \<noteq> NilExpr
                     then (case convert L t (LC_Offset lc) of
                             (limitOffset, t') \<Rightarrow>
                               (r\<lparr>LimitCount := limitCount, LimitOffset := limitOffset\<rparr>, t'))
                     else (r\<lparr>LimitCount := limitCount\<rparr>, t))) of (r, s9) \<Rightarrow>
      case (case unionAll of
              Some u \<Rightarrow>
                (case convertSelectQuery L s9 u of
                   (rarg, t) \<Rightarrow>
                     (r\<lparr>Op := ast_Union, All_flag := True, Larg := Some (next_addr t),
                        Rarg := Some rarg\<rparr>, t))
            | None \<Rightarrow>
                (case unionDistinct of
                   Some u \<Rightarrow>
                     (case convertSelectQuery L s9 u of
                        (rarg, t) \<Rightarrow>
                          (r\<lparr>Op := ast_Union, All_flag := False, Larg := Some (next_addr t),
                             Rarg := Some rarg\<rparr>, t))
                 | None \<Rightarrow>
                     (case except of
                        Some u \<Rightarrow>
                          (case convertSelectQuery L s9 u of
                             (rarg, t) \<Rightarrow>
                               (r\<lparr>Op := ast_Except, Larg := Some (next_addr t),
                                  Rarg := Some rarg\<rparr>, t))
                      | None \<Rightarrow> (r, s9)))) of (r, s10) \<Rightarrow>
      new_SelectStmt s10 r)"

| "convertSelectItems L s selectItems =
     (case mapS (convertSelectItem L) s selectItems of (xs, s') \<Rightarrow> (Some xs, s'))"

| "convertSelectItem L s (ch_SelectItem expr alias pos) =
     (let name = (case alias of None \<Rightarrow> None | Some a \<Rightarrow> Some (identifier L (Id_Name a)))
      in case convert L s expr of (val, s') \<Rightarrow> (ast_ResTarget name val pos, s'))"

| "convertFromClause L s None = (Some [], s)"
| "convertFromClause L s (Some (ch_FromClause expr)) =
     (if expr \<noteq> NilExpr
      then (case convertFromExpr L s expr of (n, s') \<Rightarrow> (Some [n], s'))
      else (Some [], s))"

| "convertFromExpr L s expr =
     (if expr = NilExpr then (ast_TODO, s)
      else case as_TableExpr expr of
             Some e \<Rightarrow> convertTableExpr L s e
           | None \<Rightarrow>
               (case as_JoinExpr expr of
                  Some e \<Rightarrow> convertJoinExpr L s e
                | None \<Rightarrow> convert L s expr))"

| "convertTableExpr L s None = (ast_TODO, s)"
| "convertTableExpr L s (Some (ch_TableExpr expr alias)) =
     (case as_TableIdentifier expr of
        Some tableIdent \<Rightarrow> (N_RangeVar (convertTableIdentifier L tableIdent), s)
      | None \<Rightarrow>
          (case as_SelectQuery expr of
             Some selectQuery \<Rightarrow>
               (case convert L s expr of
                  (subquery, s') \<Rightarrow>
                    (ast_RangeSubselect subquery
                       (case alias of
                          None \<Rightarrow> None
                        | Some al \<Rightarrow>
                            (case as_Ident (AE_Alias al) of
                               Some aliasIdent \<Rightarrow> Some (ast_Alias (Some (Id_Name aliasIdent)))
                             | None \<Rightarrow> None)), s'))
           | None \<Rightarrow> convert L s expr))"

| "convertJoinExpr L s (ch_JoinExpr left right modifiers constraints) =
     (case convertFromExpr L s left of (larg, s1) \<Rightarrow>
      case convertFromExpr L s1 right of (rarg, s2) \<Rightarrow>
      let jointype = parseJoinType L (joinTypeOfModifiers L modifiers) in
      if constraints \<noteq> NilExpr
      then (case convert L s2 constraints of
              (quals, s3) \<Rightarrow> (ast_JoinExpr larg rarg jointype quals, s3))
      else (ast_JoinExpr larg rarg jointype NodeNil, s2))"

| "convertWhereClause L s None = (NodeNil, s)"
| "convertWhereClause L s (Some (ch_WhereClause expr)) = convert L s expr"

| "convertGroupByClause L s None = (Some [], s)"
| "convertGroupByClause L s (Some (ch_GroupByClause expr)) =
     (if expr \<noteq> NilExpr
      then (case convert L s expr of (n, s') \<Rightarrow> (Some [n], s'))
      else (Some [], s))"

| "convertHavingClause L s None = (NodeNil, s)"
| "convertHavingClause L s (Some (ch_HavingClause expr)) = convert L s expr"

| "convertOrderByClause L s None = (Some [], s)"
| "convertOrderByClause L s (Some (ch_OrderByClause items)) =
     (case mapS (convert L) s items of (xs, s') \<Rightarrow> (Some xs, s'))"

| "convertLimitClause L s None = (NodeNil, s)"
| "convertLimitClause L s (Some (ch_LimitClause lim off)) =
     (if lim = NilExpr then (NodeNil, s) else convert L s lim)"

| "convertWithClause L s None = (None, s)"
| "convertWithClause L s (Some (ch_WithClause ctes pos)) =
     (case mapS (convertCTE L) s ctes of
        (xs, s') \<Rightarrow> (Some (ast_WithClause (Some xs) pos), s'))"

| "convertCTE L s None = (N_CommonTableExpr None, s)"
| "convertCTE L s (Some (ch_CTEStmt expr alias pos)) =
     (let cteName = (case as_Ident expr of
                       Some ident' \<Rightarrow> Some (identifier L (Id_Name ident'))
                     | None \<Rightarrow> None)
      in case convert L s alias of
           (ctequery, s') \<Rightarrow>
             (N_CommonTableExpr (Some (ast_CommonTableExpr cteName ctequery pos)), s'))"

| "convertInsertStmt L s (ch_InsertStmt table columnNames vals selectExpr) =
     (let relation = convertTableExprToRangeVar L table;
          cols = convertColumnNames L columnNames
      in case (if vals \<noteq> []
               then (case convertValues L s vals of
                       (valuesLists, t) \<Rightarrow>
                         (case new_SelectStmt t
                                 (zero_SelectStmt\<lparr>FromClause := Some [], TargetList := Some [],
                                    ValuesLists := valuesLists\<rparr>) of
                            (a, t') \<Rightarrow> (N_SelectStmt a, t')))
               else (NodeNil, s)) of
           (sel, s1) \<Rightarrow>
             (case (case selectExpr of
                      None \<Rightarrow> (sel, s1)
                    | Some q \<Rightarrow> convert L s1 (E_SelectQuery q)) of
                (sel', s2) \<Rightarrow> (ast_InsertStmt (Some relation) cols (Some []) sel', s2)))"

| "convertValues L s vals =
     (case mapS (\<lambda>u valueSet.
                   (case mapS (convert L) u (AV_Values valueSet) of
                      (inner, u') \<Rightarrow> (ast_List inner, u')))
             s vals of
        (xs, s') \<Rightarrow> (Some xs, s'))"

| "convertColumnExpr L s (ch_ColumnExpr expr) = convert L s expr"

| "convertFunctionExpr L s (ch_FunctionExpr name params pos) =
     (let funcName = identifier L (Id_Name name);
          schema = (if strings_HasPrefix funcName ''sqlc_'' then ''sqlc'' else []);
          baseFuncName = (if strings_HasPrefix funcName ''sqlc_''
                          then strings_TrimPrefix funcName ''sqlc_'' else funcName)
      in case (case params of
                 None \<Rightarrow> ([], s)
               | Some pl \<Rightarrow>
                   (case PL_Items pl of
                      None \<Rightarrow> ([], s)
                    | Some cl \<Rightarrow> mapS (convert L) s (CL_Items cl))) of
           (args, s') \<Rightarrow>
             (ast_FuncCall (Some (ast_FuncName schema baseFuncName))
                (Some [ast_String funcName]) (Some args) pos None, s'))"

| "convertBinaryOperation L s (ch_BinaryOperation operation leftExpr rightExpr pos) =
     (case convert L s leftExpr of (lexpr, s1) \<Rightarrow>
      case convert L s1 rightExpr of (rexpr, s2) \<Rightarrow>
      (ast_A_Expr 0 (Some [ast_String operation]) lexpr rexpr pos, s2))"

| "convertOrderExpr L s None = (ast_TODO, s)"
| "convertOrderExpr L s (Some (ch_OrderExpr expr direction pos)) =
     (case convert L s expr of
        (n, s') \<Rightarrow>
          (ast_SortBy n
             (if direction = ''DESC'' then ast_SortByDirDesc
              else if direction = ''ASC'' then ast_SortByDirAsc
              else ast_SortByDirDefault) pos, s'))"

| "convertJoinTableExpr L s None = (ast_TODO, s)"
| "convertJoinTableExpr L s (Some (ch_JoinTableExpr None)) = (ast_TODO, s)"
| "convertJoinTableExpr L s (Some (ch_JoinTableExpr (Some t))) = convertTableExpr L s (Some t)"

| "convertCastExpr L s None = (ast_TODO, s)"
| "convertCastExpr L s (Some (ch_CastExpr expr asType pos)) =
     (case convert L s expr of
        (arg, s') \<Rightarrow>
          (let typeName =
                 (if asType = NilExpr then None
                  else case as_ColumnType asType of
                         Some colType \<Rightarrow> Some (convertColumnType L (Some colType))
                       | None \<Rightarrow>
                           (case as_Ident asType of
                              Some ident' \<Rightarrow>
                                (let typeStr = identifier L (Id_Name ident')
                                 in Some (ast_TypeName typeStr (Some [NewIdentifier L typeStr])))
                            | None \<Rightarrow>
                                Some (ast_TypeName ''text'' (Some [NewIdentifier L ''text'']))))
           in (ast_TypeCast arg typeName pos, s')))"

| "convertCaseExpr L s None = (ast_TODO, s)"
| "convertCaseExpr L s (Some (ch_CaseExpr expr whens else' pos)) =
     (case (if expr \<noteq> NilExpr then convert L s expr else (NodeNil, s)) of (arg, s1) \<Rightarrow>
      case mapS (\<lambda>u when.
                  (case when of
                     None \<Rightarrow> ([], u)
                   | Some wc \<Rightarrow>
                       (case convert L u (When_When wc) of (whenExpr, u1) \<Rightarrow>
                        case convert L u1 (When_Then wc) of (thenExpr, u2) \<Rightarrow>
                        ([whenExpr, thenExpr], u2)))) s1 whens of (args, s2) \<Rightarrow>
      case (if else' \<noteq> NilExpr then convert L s2 else' else (NodeNil, s2)) of (elseExpr, s3) \<Rightarrow>
      (ast_CaseExpr arg (Some (concat args)) elseExpr pos, s3))"

| "convertWindowFunctionExpr L s None = (ast_TODO, s)"
| "convertWindowFunctionExpr L s (Some (ch_WindowFunctionExpr function overExpr)) =
     (case convertFunctionExpr L s function of (funcCall, s1) \<Rightarrow>
      case (case as_WindowExpr overExpr of
              Some winDef \<Rightarrow> convertWindowDef L s1 winDef
            | None \<Rightarrow> (None, s1)) of (overClause, s2) \<Rightarrow>
      (set_Over funcCall overClause, s2))"

| "convertWindowDef L s None = (None, s)"
| "convertWindowDef L s (Some (ch_WindowExpr partitionBy orderBy pos)) =
     (case (case partitionBy of
              None \<Rightarrow> (None, s)
            | Some pb \<Rightarrow>
                if PB_Expr pb \<noteq> NilExpr
                then (case convert L s (PB_Expr pb) of (n, t) \<Rightarrow> (Some [n], t))
                else (None, s)) of (partitionClause, s1) \<Rightarrow>
      case (case orderBy of
              None \<Rightarrow> (None, s1)
            | Some ob \<Rightarrow> convertOrderByClause L s1 (Some ob)) of (orderClause, s2) \<Rightarrow>
      (Some (ast_WindowDef partitionClause orderClause pos), s2))"

| "convertIsNullExpr L s None = (ast_TODO, s)"
| "convertIsNullExpr L s (Some (ch_IsNullExpr expr pos)) =
     (case convert L s expr of (arg, s') \<Rightarrow> (ast_NullTest arg 0 pos, s'))"

| "convertIsNotNullExpr L s None = (ast_TODO, s)"
| "convertIsNotNullExpr L s (Some (ch_IsNotNullExpr expr pos)) =
     (case convert L s expr of (arg, s') \<Rightarrow> (ast_NullTest arg 1 pos, s'))"

| "convertUnaryExpr L s None = (ast_TODO, s)"
| "convertUnaryExpr L s (Some (ch_UnaryExpr kind expr pos)) =
     (case convert L s expr of
        (rexpr, s') \<Rightarrow> (ast_A_Expr 1 (Some [ast_String kind]) NodeNil rexpr pos, s'))"

| "convertMapLiteral L s None = (ast_TODO, s)"
| "convertMapLiteral L s (Some (ch_MapLiteral keyValues pos)) =
     (case mapS (\<lambda>u kv.
                  (case convert L u (E_StringLiteral (KV_Key kv)) of
                     (k, u1) \<Rightarrow>
                       if KV_Value kv \<noteq> NilExpr
                       then (case convert L u1 (KV_Value kv) of (v, u2) \<Rightarrow> ([k, v], u2))
                       else ([k], u1))) s keyValues of
        (items, s') \<Rightarrow> (ast_A_Const (ast_List (concat items)) pos, s'))"

| "convertParamExprList L s None = (ast_TODO, s)"
| "convertParamExprList L s (Some (ch_ParamExprList None)) = (ast_TODO, s)"
| "convertParamExprList L s (Some (ch_ParamExprList (Some (ch_ColumnExprList items)))) =
     (if length items = 1 then convert L s (items ! 0)
      else case mapS (\<lambda>u item.
                  (case as_ColumnExpr item of
                     Some colExpr \<Rightarrow> convert L u (CE_Expr colExpr)
                   | None \<Rightarrow> convert L u item)) s items of
             (xs, s') \<Rightarrow> (ast_List xs, s'))"

| "mergeArrayJoinIntoFrom L s fromClause arrayJoin =
     (let items = (case fromClause of None \<Rightarrow> [] | Some xs \<Rightarrow> xs)
      in case convertArrayJoinClause L s arrayJoin of
           (arrayJoinNode, s') \<Rightarrow>
             if arrayJoinNode \<noteq> NodeNil then (Some (items @ [arrayJoinNode]), s')
             else (Some items, s'))"

| "convertArrayJoinClause L s None = (NodeNil, s)"
| "convertArrayJoinClause L s (Some (ch_ArrayJoinClause joinType expr)) =
     (case as_ColumnExprList expr of
        Some exprList \<Rightarrow>
          (if length (CL_Items exprList) > 0
           then convertArrayJoinItem L s (CL_Items exprList ! 0) joinType
           else convertArrayJoinItem L s expr joinType)
      | None \<Rightarrow> convertArrayJoinItem L s expr joinType)"

| "convertArrayJoinItem L s expr joinType =
     (if expr = NilExpr then (NodeNil, s)
      else case as_SelectItem expr of
             Some selectItem \<Rightarrow>
               (case convert L s (SI_Expr selectItem) of
                  (arrayExpr, s') \<Rightarrow>
                    (arrayJoinRangeFunction arrayExpr joinType
                       (case SI_Alias selectItem of
                          None \<Rightarrow> None
                        | Some a \<Rightarrow> Some (ast_Alias (Some (identifier L (Id_Name a))))), s'))
           | None \<Rightarrow>
               (case convert L s expr of
                  (arrayExpr, s') \<Rightarrow> (arrayJoinRangeFunction arrayExpr joinType None, s')))"
  by pat_completeness auto

text \<open>
  Termination: each call is on a part of the node, except that \<open>convertFromExpr\<close> and
  \<open>convertArrayJoinItem\<close> hand their node to \<open>convert\<close>, and \<open>mergeArrayJoinIntoFrom\<close>
  its clause to \<open>convertArrayJoinClause\<close>; these three rank above their callees.
\<close>

lemma size_list_elem:
  "x \<in> set xs \<Longrightarrow> f x < size_list f xs"
  by (induction xs) auto

lemma size_elem_Expr: "(x::Expr) \<in> set xs \<Longrightarrow> size x < size_list size xs"
  by (rule size_list_elem)

lemma size_elem_SelectItem:
  "(x::Expr ch_SelectItem) \<in> set xs \<Longrightarrow>
     size_ch_SelectItem size x < size_list (size_ch_SelectItem size) xs"
  by (rule size_list_elem)

lemma size_elem_CTEStmt:
  "(x::Expr ch_CTEStmt option) \<in> set xs \<Longrightarrow>
     size_option (size_ch_CTEStmt size) x < size_list (size_option (size_ch_CTEStmt size)) xs"
  by (rule size_list_elem)

lemma size_elem_AssignmentValues:
  "(x::Expr ch_AssignmentValues) \<in> set xs \<Longrightarrow>
     size_ch_AssignmentValues size x < size_list (size_ch_AssignmentValues size) xs"
  by (rule size_list_elem)

lemma size_elem_WhenClause:
  "(x::Expr ch_WhenClause option) \<in> set xs \<Longrightarrow>
     size_option (size_ch_WhenClause size) x
       < size_list (size_option (size_ch_WhenClause size)) xs"
  by (rule size_list_elem)

lemma size_elem_KeyValue:
  "(x::Expr ch_KeyValue) \<in> set xs \<Longrightarrow>
     size_ch_KeyValue size x < size_list (size_ch_KeyValue size) xs"
  by (rule size_list_elem)

lemma as_TableExpr_SomeD: "as_TableExpr e = Some x \<Longrightarrow> e = E_TableExpr x"
  by (cases e) (simp_all add: as_TableExpr_def)

lemma as_JoinExpr_SomeD: "as_JoinExpr e = Some x \<Longrightarrow> e = E_JoinExpr x"
  by (cases e) (simp_all add: as_JoinExpr_def)

lemma as_SelectQuery_SomeD: "as_SelectQuery e = Some x \<Longrightarrow> e = E_SelectQuery x"
  by (cases e) (simp_all add: as_SelectQuery_def)

lemma as_WindowExpr_SomeD: "as_WindowExpr e = Some x \<Longrightarrow> e = E_WindowExpr x"
  by (cases e) (simp_all add: as_WindowExpr_def)

lemma as_ColumnExpr_SomeD: "as_ColumnExpr e = Some x \<Longrightarrow> e = E_ColumnExpr x"
  by (cases e) (simp_all add: as_ColumnExpr_def)

lemma as_ColumnExprList_SomeD: "as_ColumnExprList e = Some x \<Longrightarrow> e = E_ColumnExprList x"
  by (cases e) (simp_all add: as_ColumnExprList_def)

lemma as_SelectItem_SomeD: "as_SelectItem e = Some x \<Longrightarrow> e = E_SelectItem x"
  by (cases e) (simp_all add: as_SelectItem_def)

lemma size_nth_Expr: "i < length xs \<Longrightarrow> size ((xs::Expr list) ! i) < size_list size xs"
  by (rule size_list_elem) simp

lemma size_first_Expr: "xs \<noteq> [] \<Longrightarrow> size ((xs::Expr list) ! 0) < size_list size xs"
  by (rule size_nth_Expr) simp

lemma size_single_Expr:
  "length xs = Suc 0 \<Longrightarrow> size ((xs::Expr list) ! 0) < size_list size xs"
  by (rule size_nth_Expr) simp

lemma size_sel_PartitionByClause:
  "size_ch_PartitionByClause f x = f (PB_Expr x) + 1"
  by (cases x) simp

lemma size_sel_WhenClause:
  "size_ch_WhenClause f x = f (When_When x) + f (When_Then x) + 1"
  by (cases x) simp

lemma size_sel_ColumnExpr: "size_ch_ColumnExpr f x = f (CE_Expr x) + 1"
  by (cases x) simp

lemma size_sel_ColumnExprList: "size_ch_ColumnExprList f x = size_list f (CL_Items x) + 1"
  by (cases x) simp

lemma size_sel_ParamExprList:
  "size_ch_ParamExprList f x = size_option (size_ch_ColumnExprList f) (PL_Items x) + 1"
  by (cases x) simp

lemma size_sel_AssignmentValues:
  "size_ch_AssignmentValues f x = size_list f (AV_Values x) + 1"
  by (cases x) simp

lemma size_sel_KeyValue: "size_ch_KeyValue f x = f (KV_Value x) + 1"
  by (cases x) simp

lemma size_sel_SelectItem: "size_ch_SelectItem f x = f (SI_Expr x) + 1"
  by (cases x) simp

lemma size_sel_LimitClause:
  "size_ch_LimitClause f x = f (LC_Limit x) + f (LC_Offset x) + 1"
  by (cases x) simp

lemmas size_sel =
  size_sel_PartitionByClause size_sel_WhenClause size_sel_ColumnExpr size_sel_ColumnExprList
  size_sel_ParamExprList size_sel_AssignmentValues size_sel_KeyValue size_sel_SelectItem
  size_sel_LimitClause

lemma size_elem_AssignmentValues_inner:
  assumes "(x::Expr ch_AssignmentValues) \<in> set vals" and "xa \<in> set (AV_Values x)"
  shows "size xa < size_list (size_ch_AssignmentValues size) vals"
proof -
  have "size xa < size_list size (AV_Values x)"
    using assms(2) by (rule size_list_elem)
  also have "\<dots> < size_ch_AssignmentValues size x"
    by (simp add: size_sel_AssignmentValues)
  also have "\<dots> < size_list (size_ch_AssignmentValues size) vals"
    using assms(1) by (rule size_list_elem)
  finally show ?thesis .
qed

termination convert
  apply (relation "measure
    (case_sum
     (case_sum
      (case_sum
       (case_sum
        (case_sum
         (\<lambda>(L, s, x). 2 * size x)
         (\<lambda>(L, s, x). 2 * size_ch_SelectQuery size x))
        (case_sum
         (\<lambda>(L, s, x). 2 * size_list (size_ch_SelectItem size) x)
         (\<lambda>(L, s, x). 2 * size_ch_SelectItem size x)))
       (case_sum
        (case_sum
         (\<lambda>(L, s, x). 2 * size_option (size_ch_FromClause size) x)
         (\<lambda>(L, s, x). 2 * size x + 1))
        (case_sum
         (\<lambda>(L, s, x). 2 * size_option (size_ch_TableExpr size) x)
         (\<lambda>(L, s, x). 2 * size_ch_JoinExpr size x))))
      (case_sum
       (case_sum
        (case_sum
         (\<lambda>(L, s, x). 2 * size_option (size_ch_WhereClause size) x)
         (\<lambda>(L, s, x). 2 * size_option (size_ch_GroupByClause size) x))
        (case_sum
         (\<lambda>(L, s, x). 2 * size_option (size_ch_HavingClause size) x)
         (\<lambda>(L, s, x). 2 * size_option (size_ch_OrderByClause size) x)))
       (case_sum
        (case_sum
         (\<lambda>(L, s, x). 2 * size_option (size_ch_LimitClause size) x)
         (\<lambda>(L, s, x). 2 * size_option (size_ch_WithClause size) x))
        (case_sum
         (\<lambda>(L, s, x). 2 * size_option (size_ch_CTEStmt size) x)
         (case_sum
          (\<lambda>(L, s, x). 2 * size_ch_InsertStmt size x)
          (\<lambda>(L, s, x). 2 * size_list (size_ch_AssignmentValues size) x))))))
     (case_sum
      (case_sum
       (case_sum
        (case_sum
         (\<lambda>(L, s, x). 2 * size_ch_ColumnExpr size x)
         (\<lambda>(L, s, x). 2 * size_ch_FunctionExpr size x))
        (case_sum
         (\<lambda>(L, s, x). 2 * size_ch_BinaryOperation size x)
         (\<lambda>(L, s, x). 2 * size_option (size_ch_OrderExpr size) x)))
       (case_sum
        (case_sum
         (\<lambda>(L, s, x). 2 * size_option (size_ch_JoinTableExpr size) x)
         (\<lambda>(L, s, x). 2 * size_option (size_ch_CastExpr size) x))
        (case_sum
         (\<lambda>(L, s, x). 2 * size_option (size_ch_CaseExpr size) x)
         (\<lambda>(L, s, x). 2 * size_option (size_ch_WindowFunctionExpr size) x))))
      (case_sum
       (case_sum
        (case_sum
         (\<lambda>(L, s, x). 2 * size_option (size_ch_WindowExpr size) x)
         (\<lambda>(L, s, x). 2 * size_option (size_ch_IsNullExpr size) x))
        (case_sum
         (\<lambda>(L, s, x). 2 * size_option (size_ch_IsNotNullExpr size) x)
         (\<lambda>(L, s, x). 2 * size_option (size_ch_UnaryExpr size) x)))
       (case_sum
        (case_sum
         (\<lambda>(L, s, x). 2 * size_option (size_ch_MapLiteral size) x)
         (\<lambda>(L, s, x). 2 * size_option (size_ch_ParamExprList size) x))
        (case_sum
         (\<lambda>(L, s, fc, x). 2 * size_option (size_ch_ArrayJoinClause size) x + 1)
         (case_sum
          (\<lambda>(L, s, x). 2 * size_option (size_ch_ArrayJoinClause size) x)
          (\<lambda>(L, s, x, jt). 2 * size x + 1)))))))
")
  apply (auto dest: size_elem_Expr size_elem_SelectItem size_elem_CTEStmt
           size_elem_AssignmentValues size_elem_WhenClause size_elem_KeyValue
           size_first_Expr size_single_Expr
         dest!: as_TableExpr_SomeD as_JoinExpr_SomeD as_SelectQuery_SomeD as_WindowExpr_SomeD
           as_ColumnExpr_SomeD as_ColumnExprList_SomeD as_SelectItem_SomeD)
  apply (auto simp: size_sel
         dest: size_elem_Expr size_elem_AssignmentValues size_elem_WhenClause
           size_elem_KeyValue size_first_Expr)
  apply (erule (1) size_elem_AssignmentValues_inner)
  done

subsection \<open>The catalog (internal/engine/clickhouse/catalog.go)\<close>

text \<open>
  \<open>NewCatalog\<close> fills three fields of \<open>catalog.Catalog\<close>. The struct types are declared
  in package \<open>catalog\<close>, outside the repository's ClickHouse engine; a table and a column
  have the fields that section 3 of the specification gives them. \<open>Extensions\<close> is a Go
  map used as a set.
\<close>

record catalog_Column =
  Column_Name :: string
  Column_Type :: string
  Column_Nullable :: bool

record catalog_Table =
  Table_Name :: string
  Columns :: "catalog_Column list"

record catalog_Schema =
  Schema_Name :: string
  Tables :: "catalog_Table list"

record catalog_Catalog =
  DefaultSchema :: string
  Schemas :: "catalog_Schema list"
  Extensions :: "string list"



subsection \<open>Notions used in the statements\<close>

text \<open>
  A library for closed examples: it leaves a string that is not pure ASCII as it is, and
  takes for a float a text of digits with at most one point in it. All the examples
  below are ASCII, and on each of them this is what \<open>strconv.ParseFloat\<close> answers.
\<close>

definition example_ParseFloat_ok :: "string \<Rightarrow> bool" where
  "example_ParseFloat_ok s =
     (list_ex isDigit s \<and> list_all (\<lambda>c. isDigit c \<or> c = CHR ''.'') s
      \<and> length (filter (\<lambda>c. c = CHR ''.'') s) \<le> 1)"

definition example_lib :: go_lib where
  "example_lib =
     \<lparr>unicode_ToLower = (\<lambda>s. s), unicode_ToUpper = (\<lambda>s. s),
      ParseFloat_ok = example_ParseFloat_ok\<rparr>"

text \<open>A fresh converter, \<open>&cc{}\<close>, and an empty store.\<close>

definition new_cc :: cc where
  "new_cc = \<lparr>paramCount = 0\<rparr>"

definition new_state :: state where
  "new_state = (new_cc, [])"

text \<open>The node kinds that the switch of \<open>convert\<close> names.\<close>

definition supported :: "Expr \<Rightarrow> bool" where
  "supported e =
     (case e of
        E_SelectQuery _ \<Rightarrow> True | E_InsertStmt _ \<Rightarrow> True | E_AlterTable _ \<Rightarrow> True
      | E_CreateTable _ \<Rightarrow> True | E_CreateDatabase _ \<Rightarrow> True | E_DropStmt _ \<Rightarrow> True
      | E_OptimizeStmt _ \<Rightarrow> True | E_DescribeStmt _ \<Rightarrow> True | E_ExplainStmt _ \<Rightarrow> True
      | E_ShowStmt _ \<Rightarrow> True | E_TruncateTable _ \<Rightarrow> True | E_Ident _ \<Rightarrow> True
      | E_ColumnExpr _ \<Rightarrow> True | E_FunctionExpr _ \<Rightarrow> True | E_BinaryOperation _ \<Rightarrow> True
      | E_NumberLiteral _ \<Rightarrow> True | E_StringLiteral _ \<Rightarrow> True | E_QueryParam _ \<Rightarrow> True
      | E_NestedIdentifier _ \<Rightarrow> True | E_OrderExpr _ \<Rightarrow> True | E_PlaceHolder _ \<Rightarrow> True
      | E_JoinTableExpr _ \<Rightarrow> True | E_CastExpr _ \<Rightarrow> True | E_CaseExpr _ \<Rightarrow> True
      | E_WindowFunctionExpr _ \<Rightarrow> True | E_IsNullExpr _ \<Rightarrow> True | E_IsNotNullExpr _ \<Rightarrow> True
      | E_UnaryExpr _ \<Rightarrow> True | E_MapLiteral _ \<Rightarrow> True | E_ParamExprList _ \<Rightarrow> True
      | _ \<Rightarrow> False)"

text \<open>The names that \<open>mapClickHouseType\<close> returns.\<close>

definition mapped_types :: "string list" where
  "mapped_types =
     [''uint8'', ''uint16'', ''uint32'', ''uint64'', ''int8'', ''int16'', ''int32'', ''int64'',
      ''numeric'', ''real'', ''double precision'', ''text'', ''varchar'', ''date'',
      ''timestamp'', ''boolean'', ''uuid'', ''text[]'', ''jsonb'']"

text \<open>A lower-cased type name that some case of the switch before \<open>default\<close> accepts.\<close>

definition recognized :: "string \<Rightarrow> bool" where
  "recognized chType =
     (list_ex (strings_HasPrefix chType)
        [''uint8'', ''uint16'', ''uint32'', ''uint64'', ''int8'', ''int16'', ''int32'', ''int64'',
         ''int128'', ''int256'', ''float32'', ''float64'', ''decimal'', ''fixedstring'',
         ''array'']
      \<or> chType \<in> set [''string'', ''date'', ''date32'', ''datetime'', ''datetime64'', ''bool'',
                       ''uuid'']
      \<or> strings_Contains chType ''json'')"

text \<open>The field \<open>Func\<close> of a node that is an \<open>ast.FuncCall\<close>.\<close>

definition FuncCall_Func :: "Node \<Rightarrow> ast_FuncName option" where
  "FuncCall_Func n = (case n of ast_FuncCall func funcname args location over \<Rightarrow> func | _ \<Rightarrow> None)"

text \<open>
  Modelled from the spec: the Catalog operations \<open>addSchema\<close> and \<open>addTable\<close> of section
  4.3 (package internal/sql/catalog of the repository is not under src/). A schema is
  added empty; a table goes to the named schema, and to the default schema when the
  name has no schema ("Default-schema fallback applies when a table reference omits a
  schema").
\<close>

definition addSchema :: "catalog_Catalog \<Rightarrow> string \<Rightarrow> catalog_Catalog" where
  "addSchema c name = c\<lparr>Schemas := Schemas c @ [\<lparr>Schema_Name = name, Tables = []\<rparr>]\<rparr>"

text \<open>Modelled from the spec: \<open>addTable(schema, name, columns[])\<close> of section 4.3, see above.\<close>

definition addTable ::
  "catalog_Catalog \<Rightarrow> string \<Rightarrow> string \<Rightarrow> catalog_Column list \<Rightarrow> catalog_Catalog" where
  "addTable c schema name cols =
     (let target = (if schema = [] then DefaultSchema c else schema)
      in c\<lparr>Schemas :=
             map (\<lambda>s. if Schema_Name s = target
                      then s\<lparr>Tables := Tables s @ [\<lparr>Table_Name = name, Columns = cols\<rparr>]\<rparr>
                      else s) (Schemas c)\<rparr>)"

text \<open>
  Modelled from the spec: the column of the Catalog that a converted column definition
  stands for, \<open>Column{name, type, nullable}\<close> of section 3.
\<close>

definition column_of :: "Node ast_ColumnDef \<Rightarrow> catalog_Column" where
  "column_of d =
     \<lparr>Column_Name = Colname d,
      Column_Type = (case Col_TypeName d of None \<Rightarrow> [] | Some t \<Rightarrow> Ty_Name t),
      Column_Nullable = (\<not> IsNotNull d)\<rparr>"

text \<open>
  Modelled from the spec: the schema load (the compiler's use of the Catalog is in
  internal/compiler and internal/sql/catalog, not under src/). Section 6: the converted
  CreateTable and CreateDatabase statements feed the Catalog; any other statement
  "produce[s] no Catalog mutation".
\<close>

definition schemaLoad :: "catalog_Catalog \<Rightarrow> Node \<Rightarrow> catalog_Catalog" where
  "schemaLoad c stmt =
     (case stmt of
        ast_CreateTableStmt name ifNotExists cols \<Rightarrow>
          (case name of
             None \<Rightarrow> c
           | Some tn \<Rightarrow> addTable c (TN_Schema tn) (TN_Name tn) (map column_of cols))
      | ast_CreateSchemaStmt name ifNotExists \<Rightarrow>
          (case name of None \<Rightarrow> c | Some n \<Rightarrow> addSchema c n)
      | _ \<Rightarrow> c)"

text \<open>
  Modelled from the spec: whether a Query record is assembled for a converted statement
  (the assembly is in internal/compiler, not under src/). Section 8: a maintenance-only
  statement "yields no Query record"; such a statement, like every unsupported one, is
  the opaque placeholder of section 4.2. A schema statement feeds the Catalog instead
  (section 6), and no statement at all gives no record.
\<close>

definition yieldsQueryRecord :: "Node \<Rightarrow> bool" where
  "yieldsQueryRecord stmt =
     (case stmt of
        NodeNil \<Rightarrow> False
      | ast_TODO \<Rightarrow> False
      | ast_CreateTableStmt name ifNotExists cols \<Rightarrow> False
      | ast_CreateSchemaStmt name ifNotExists \<Rightarrow> False
      | _ \<Rightarrow> True)"


subsection \<open>Statements used as examples\<close>

text \<open>
  Parse trees as the parser builds them, with the byte offsets of the text. A number is
  a \<open>NumberLiteral\<close>, a bare name an \<open>Ident\<close>.
\<close>

definition number :: "string \<Rightarrow> Pos \<Rightarrow> Expr" where
  "number s p = E_NumberLiteral (Some (ch_NumberLiteral s p))"

definition select_from ::
  "Expr ch_SelectItem list \<Rightarrow> Expr ch_FromClause option \<Rightarrow> Expr ch_SelectQuery" where
  "select_from items from' =
     ch_SelectQuery items from' None None None None None None False None None None None"

text \<open>\<open>SELECT 1 UNION ALL SELECT 2\<close>: the second query hangs on the first.\<close>

definition select_2 :: "Expr ch_SelectQuery" where
  "select_2 = select_from [ch_SelectItem (number ''2'' 26) None 26] None"

definition select_1_union_all_select_2 :: "Expr ch_SelectQuery" where
  "select_1_union_all_select_2 =
     ch_SelectQuery [ch_SelectItem (number ''1'' 7) None 7] None None None None None None None
       False None (Some select_2) None None"


text \<open>
  A table reference as the parser builds it in a FROM clause: a \<open>TableIdentifier\<close> in a
  \<open>TableExpr\<close> without alias, in a \<open>JoinTableExpr\<close>. A name of one part is in the slot
  \<open>Table\<close>.
\<close>

definition table_ref :: "ch_TableIdentifier \<Rightarrow> Expr" where
  "table_ref t =
     E_JoinTableExpr (Some (ch_JoinTableExpr (Some (ch_TableExpr (E_TableIdentifier t) None))))"

definition table_name :: "string \<Rightarrow> Pos \<Rightarrow> ch_TableIdentifier" where
  "table_name n p = ch_TableIdentifier None (Some (ch_Ident n p)) p"

text \<open>\<open>col = ?\<close> in a WHERE clause, the column at \<open>p\<close> and the marker at \<open>q\<close>.\<close>

definition where_eq_marker :: "string \<Rightarrow> Pos \<Rightarrow> Pos \<Rightarrow> Expr ch_WhereClause" where
  "where_eq_marker col p q =
     ch_WhereClause (E_BinaryOperation
       (ch_BinaryOperation ''='' (E_Ident (ch_Ident col p)) (E_PlaceHolder q) p))"

text \<open>
  \<open>WITH c AS (SELECT id FROM t WHERE id = ?) SELECT id FROM c WHERE id = ?\<close>: the two
  markers are at the offsets 39 and 70.
\<close>

definition with_inner :: "Expr ch_SelectQuery" where
  "with_inner =
     ch_SelectQuery [ch_SelectItem (E_Ident (ch_Ident ''id'' 18)) None 18]
       (Some (ch_FromClause (table_ref (table_name ''t'' 26))))
       (Some (where_eq_marker ''id'' 34 39))
       None None None None None False None None None None"

definition with_query :: "Expr ch_SelectQuery" where
  "with_query =
     ch_SelectQuery [ch_SelectItem (E_Ident (ch_Ident ''id'' 49)) None 49]
       (Some (ch_FromClause (table_ref (table_name ''c'' 57))))
       (Some (where_eq_marker ''id'' 65 70))
       None None None
       (Some (ch_WithClause
          [Some (ch_CTEStmt (E_Ident (ch_Ident ''c'' 5)) (E_SelectQuery with_inner) 5)] 0))
       None False None None None None"

section \<open>Properties\<close>

subsection \<open>Auxiliary facts\<close>

lemma ParseUint_nonneg:
  assumes "ParseUint s = Some v"
  shows "0 \<le> v"
proof -
  have "list_all isDigit s \<Longrightarrow> 0 \<le> n \<Longrightarrow>
      0 \<le> foldl (\<lambda>n c. 10 * n + (int (of_char c) - 48)) n s" for n
    by (induction s arbitrary: n) (auto simp: isDigit_def)
  with assms show ?thesis
    by (auto simp: ParseUint_def split: if_splits)
qed

lemma ParseInt_range:
  assumes "ParseInt s = Some v"
  shows "- (2 ^ 63) \<le> v \<and> v < 2 ^ 63"
  using assms ParseUint_nonneg
  by (fastforce simp: ParseInt_def Let_def split: list.splits option.splits if_splits)

lemma TrimPrefix_sqlc:
  "strings_HasPrefix f ''sqlc_'' \<Longrightarrow> strings_TrimPrefix f ''sqlc_'' = drop 5 f"
  by (simp add: strings_TrimPrefix_def eval_nat_numeral)

lemma ToLower_sqlc:
  "list_all isASCII x \<Longrightarrow> strings_ToLower L (''sqlc_'' @ x) = ''sqlc_'' @ map lowerASCII x"
  by (simp add: strings_ToLower_def isASCII_def lowerASCII_def)

lemma HasPrefix_append: "strings_HasPrefix (p @ x) p"
  by (simp add: strings_HasPrefix_def)

lemma convertFunctionExpr_Func:
  "FuncCall_Func (fst (convertFunctionExpr L s (ch_FunctionExpr name params pos))) =
     Some (ast_FuncName
       (if strings_HasPrefix (identifier L (Id_Name name)) ''sqlc_'' then ''sqlc'' else [])
       (if strings_HasPrefix (identifier L (Id_Name name)) ''sqlc_''
        then strings_TrimPrefix (identifier L (Id_Name name)) ''sqlc_''
        else identifier L (Id_Name name)))"
  by (simp add: FuncCall_Func_def Let_def split: prod.splits)

lemma lowerASCII_upperASCII: "lowerASCII (upperASCII c) = lowerASCII c"
  by (simp add: lowerASCII_def upperASCII_def)

lemma isASCII_upperASCII: "isASCII (upperASCII c) = isASCII c"
  by (simp add: isASCII_def upperASCII_def)

lemma ToLower_upper:
  "list_all isASCII t \<Longrightarrow> strings_ToLower L (map upperASCII t) = strings_ToLower L t"
  by (simp add: strings_ToLower_def list_all_iff isASCII_upperASCII lowerASCII_upperASCII)

lemma ToLower_ASCII: "list_all isASCII t \<Longrightarrow> strings_ToLower L t = map lowerASCII t"
  by (simp add: strings_ToLower_def)

lemma mapClickHouseType_mem: "mapClickHouseType L t \<in> set mapped_types"
  by (simp add: mapClickHouseType_def Let_def mapped_types_def)

lemma mapClickHouseType_nonempty: "mapClickHouseType L t \<noteq> []"
  by (simp add: mapClickHouseType_def Let_def)

lemma mapClickHouseType_ToLower:
  "strings_ToLower L t = strings_ToLower L u \<Longrightarrow> mapClickHouseType L t = mapClickHouseType L u"
  by (simp add: mapClickHouseType_def)

lemma mapClickHouseType_default:
  "\<not> recognized (strings_ToLower L t) \<Longrightarrow> mapClickHouseType L t = ''text''"
  by (simp add: mapClickHouseType_def Let_def recognized_def)

lemma ToLower_DateTime64: "strings_ToLower L ''DateTime64(3)'' = ''datetime64(3)''"
  by (simp add: strings_ToLower_def isASCII_def lowerASCII_def)

lemma ToLower_Nullable: "strings_ToLower L ''Nullable(Float64)'' = ''nullable(float64)''"
  by (simp add: strings_ToLower_def isASCII_def lowerASCII_def)

lemma not_recognized_DateTime64: "\<not> recognized ''datetime64(3)''"
  by (simp add: recognized_def strings_HasPrefix_def)

lemma not_recognized_Nullable: "\<not> recognized ''nullable(float64)''"
  by (simp add: recognized_def strings_HasPrefix_def)

subsection \<open>The claims\<close>

text \<open>
  C10. \<open>mapClickHouseType\<close> is defined on every string and returns one of nineteen names,
  none of them empty. It sees its argument only through \<open>strings.ToLower\<close>: two
  spellings with the same lower-case form get the same name, and an ASCII spelling gets
  the name of its upper-case form. A name that no case of the switch accepts gets
  \<open>text\<close>, whatever it was; \<open>DateTime64(3)\<close> and \<open>Nullable(Float64)\<close> are two such
  names.
\<close>

theorem mapClickHouseType_total:
  "mapClickHouseType L t \<in> set mapped_types
   \<and> mapClickHouseType L t \<noteq> []
   \<and> (strings_ToLower L t = strings_ToLower L u
        \<longrightarrow> mapClickHouseType L t = mapClickHouseType L u)
   \<and> (list_all isASCII t \<longrightarrow> mapClickHouseType L (map upperASCII t) = mapClickHouseType L t)
   \<and> (\<not> recognized (strings_ToLower L t) \<longrightarrow> mapClickHouseType L t = ''text'')
   \<and> \<not> recognized (strings_ToLower L ''DateTime64(3)'')
   \<and> mapClickHouseType L ''DateTime64(3)'' = ''text''
   \<and> \<not> recognized (strings_ToLower L ''Nullable(Float64)'')
   \<and> mapClickHouseType L ''Nullable(Float64)'' = ''text''"
proof -
  have "list_all isASCII t \<longrightarrow> mapClickHouseType L (map upperASCII t) = mapClickHouseType L t"
    using mapClickHouseType_ToLower [of L "map upperASCII t" t] ToLower_upper [of t L] by blast
  moreover have "strings_ToLower L t = strings_ToLower L u
      \<longrightarrow> mapClickHouseType L t = mapClickHouseType L u"
    using mapClickHouseType_ToLower by blast
  moreover have "\<not> recognized (strings_ToLower L t) \<longrightarrow> mapClickHouseType L t = ''text''"
    using mapClickHouseType_default by blast
  moreover have "\<not> recognized (strings_ToLower L ''DateTime64(3)'')"
    by (simp only: ToLower_DateTime64 not_recognized_DateTime64 not_False_eq_True)
  moreover have "\<not> recognized (strings_ToLower L ''Nullable(Float64)'')"
    by (simp only: ToLower_Nullable not_recognized_Nullable not_False_eq_True)
  ultimately show ?thesis
    using mapClickHouseType_mem [of L t] mapClickHouseType_nonempty [of L t]
      mapClickHouseType_default [of L "''DateTime64(3)''"]
      mapClickHouseType_default [of L "''Nullable(Float64)''"]
    by blast
qed

theorem mapClickHouseType_total_witness:
  "strings_ToLower example_lib ''UInt64'' = strings_ToLower example_lib ''uint64''
   \<and> mapClickHouseType example_lib ''UInt64'' = mapClickHouseType example_lib ''uint64''
   \<and> list_all isASCII ''UInt64''
   \<and> mapClickHouseType example_lib (map upperASCII ''UInt64'') = ''uint64''
   \<and> \<not> recognized (strings_ToLower example_lib ''Map(String, UInt8)'')
   \<and> mapClickHouseType example_lib ''Map(String, UInt8)'' = ''text''"
  using mapClickHouseType_total [of example_lib "''UInt64''" "''uint64''"]
    mapClickHouseType_total [of example_lib "''Map(String, UInt8)''" "''''"]
  by (simp add: strings_ToLower_def isASCII_def lowerASCII_def upperASCII_def
      mapClickHouseType_def strings_HasPrefix_def recognized_def)

text \<open>
  C9. \<open>convertNumberLiteral\<close> has a result for every argument, and the result is a
  constant: the integer 0 for a nil node and for an empty text; the integer that
  \<open>strconv.ParseInt\<close> reads, which fits 64 bits, when the text has none of the characters
  \<open>.\<close>, \<open>e\<close>, \<open>E\<close> and \<open>ParseInt\<close> accepts it; otherwise a float that carries the text when
  \<open>strconv.ParseFloat\<close> accepts it; otherwise the integer 0. No case is an error.
\<close>

theorem convertNumberLiteral_cases:
  "convertNumberLiteral L None = ast_A_Const (ast_Integer 0) 0
   \<and> (Num_Literal n = [] \<longrightarrow> convertNumberLiteral L (Some n) = ast_A_Const (ast_Integer 0) 0)
   \<and> (Num_Literal n \<noteq> [] \<and> \<not> strings_ContainsAny (Num_Literal n) ''.eE''
        \<and> ParseInt (Num_Literal n) = Some v
      \<longrightarrow> convertNumberLiteral L (Some n) = ast_A_Const (ast_Integer v) (Num_Pos n)
          \<and> - (2 ^ 63) \<le> v \<and> v < 2 ^ 63)
   \<and> (Num_Literal n \<noteq> []
        \<and> (strings_ContainsAny (Num_Literal n) ''.eE'' \<or> ParseInt (Num_Literal n) = None)
        \<and> ParseFloat_ok L (Num_Literal n)
      \<longrightarrow> convertNumberLiteral L (Some n) = ast_A_Const (ast_Float (Num_Literal n)) (Num_Pos n))
   \<and> (Num_Literal n \<noteq> []
        \<and> (strings_ContainsAny (Num_Literal n) ''.eE'' \<or> ParseInt (Num_Literal n) = None)
        \<and> \<not> ParseFloat_ok L (Num_Literal n)
      \<longrightarrow> convertNumberLiteral L (Some n) = ast_A_Const (ast_Integer 0) (Num_Pos n))"
  using ParseInt_range [of "Num_Literal n" v]
  by (auto simp: convertNumberLiteral_def Let_def)

theorem convertNumberLiteral_cases_witness:
  "Num_Literal (ch_NumberLiteral '''' 7) = []
   \<and> convertNumberLiteral example_lib (Some (ch_NumberLiteral '''' 7)) = ast_A_Const (ast_Integer 0) 0
   \<and> \<not> strings_ContainsAny ''42'' ''.eE'' \<and> ParseInt ''42'' = Some 42
   \<and> convertNumberLiteral example_lib (Some (ch_NumberLiteral ''42'' 7)) =
       ast_A_Const (ast_Integer 42) 7
   \<and> strings_ContainsAny ''1.5'' ''.eE'' \<and> ParseFloat_ok example_lib ''1.5''
   \<and> convertNumberLiteral example_lib (Some (ch_NumberLiteral ''1.5'' 7)) =
       ast_A_Const (ast_Float ''1.5'') 7
   \<and> ParseInt ''99999999999999999999'' = None \<and> ParseFloat_ok example_lib ''99999999999999999999''
   \<and> convertNumberLiteral example_lib (Some (ch_NumberLiteral ''99999999999999999999'' 7)) =
       ast_A_Const (ast_Float ''99999999999999999999'') 7
   \<and> ParseInt ''0x1F'' = None \<and> \<not> ParseFloat_ok example_lib ''0x1F''
   \<and> convertNumberLiteral example_lib (Some (ch_NumberLiteral ''0x1F'' 7)) =
       ast_A_Const (ast_Integer 0) 7"
  using convertNumberLiteral_cases [of example_lib "ch_NumberLiteral '''' 7" 0]
    convertNumberLiteral_cases [of example_lib "ch_NumberLiteral ''42'' 7" 42]
    convertNumberLiteral_cases [of example_lib "ch_NumberLiteral ''1.5'' 7" 0]
    convertNumberLiteral_cases [of example_lib "ch_NumberLiteral ''99999999999999999999'' 7" 0]
    convertNumberLiteral_cases [of example_lib "ch_NumberLiteral ''0x1F'' 7" 0]
  by (simp add: ParseInt_def ParseUint_def isDigit_def strings_ContainsAny_def example_lib_def
      example_ParseFloat_ok_def)

text \<open>
  C4. A node of a kind that the switch of \<open>convert\<close> does not name becomes the
  placeholder \<open>ast.TODO\<close>, and the state of the conversion is as before: there is no
  error to return, and the node around it is converted as usual, with the placeholder in
  the place of the child (here for a binary operation whose right operand is such a
  node).
\<close>

theorem unsupported_is_TODO:
  "e \<noteq> NilExpr \<and> \<not> supported e \<longrightarrow>
     convert L s e = (ast_TODO, s)
     \<and> convert L s (E_BinaryOperation (ch_BinaryOperation operation l e pos)) =
         (ast_A_Expr 0 (Some [ast_String operation]) (fst (convert L s l)) ast_TODO pos,
          snd (convert L s l))"
  by (cases e) (simp_all add: supported_def todo_def split: prod.splits)

theorem unsupported_is_TODO_witness:
  "E_Other ''SubQuery'' \<noteq> NilExpr \<and> \<not> supported (E_Other ''SubQuery'')
   \<and> convert example_lib new_state (E_Other ''SubQuery'') = (ast_TODO, new_state)
   \<and> convert example_lib new_state
       (E_BinaryOperation (ch_BinaryOperation ''='' (E_Ident (ch_Ident ''A'' 0))
          (E_Other ''SubQuery'') 2)) =
       (ast_A_Expr 0 (Some [ast_String ''='']) (ast_String ''a'') ast_TODO 2, new_state)"
  using unsupported_is_TODO [of "E_Other ''SubQuery''" example_lib new_state "''=''"
      "E_Ident (ch_Ident ''A'' 0)" 2]
  by (simp add: supported_def convertIdent_def identifier_def strings_ToLower_def isASCII_def
      lowerASCII_def)

text \<open>
  C7. An OPTIMIZE and a DESCRIBE statement, also as a nil pointer of their kind, convert
  to the placeholder \<open>ast.TODO\<close> and leave the state of the conversion as it was; the
  converter has no access to the Catalog. The schema load leaves the Catalog unchanged
  on the placeholder, and no Query record is assembled for it (the schema load and the
  assembly of records are modelled from the specification).
\<close>

theorem maintenance_statements:
  "convert L s (E_OptimizeStmt x) = (ast_TODO, s)
   \<and> convert L s (E_DescribeStmt y) = (ast_TODO, s)
   \<and> schemaLoad cat (fst (convert L s (E_OptimizeStmt x))) = cat
   \<and> schemaLoad cat (fst (convert L s (E_DescribeStmt y))) = cat
   \<and> \<not> yieldsQueryRecord (fst (convert L s (E_OptimizeStmt x)))
   \<and> \<not> yieldsQueryRecord (fst (convert L s (E_DescribeStmt y)))"
  by (simp add: convertOptimizeStmt_def convertDescribeStmt_def schemaLoad_def
      yieldsQueryRecord_def split: option.splits)

text \<open>
  C3. \<open>convertFunctionExpr\<close> folds the name to lower case. When the folded name begins
  with \<open>sqlc_\<close>, the function node has the schema \<open>sqlc\<close> and the folded name without
  these five characters; otherwise it has the empty schema and the folded name. For an
  ASCII name \<open>x\<close>, the call \<open>sqlc_x\<close> that stands for \<open>sqlc.x\<close> gets the schema \<open>sqlc\<close>
  and the name \<open>x\<close> in lower case.
\<close>

theorem convertFunctionExpr_schema:
  "(strings_HasPrefix (identifier L (Id_Name name)) ''sqlc_'' \<longrightarrow>
      FuncCall_Func (fst (convertFunctionExpr L s (ch_FunctionExpr name params pos))) =
        Some (ast_FuncName ''sqlc'' (drop 5 (identifier L (Id_Name name)))))
   \<and> (\<not> strings_HasPrefix (identifier L (Id_Name name)) ''sqlc_'' \<longrightarrow>
      FuncCall_Func (fst (convertFunctionExpr L s (ch_FunctionExpr name params pos))) =
        Some (ast_FuncName [] (identifier L (Id_Name name))))
   \<and> (list_all isASCII x \<longrightarrow>
      FuncCall_Func (fst (convertFunctionExpr L s
          (ch_FunctionExpr (ch_Ident (''sqlc_'' @ x) p) params pos))) =
        Some (ast_FuncName ''sqlc'' (map lowerASCII x)))"
proof -
  have "list_all isASCII x \<Longrightarrow>
      FuncCall_Func (fst (convertFunctionExpr L s
          (ch_FunctionExpr (ch_Ident (''sqlc_'' @ x) p) params pos))) =
        Some (ast_FuncName ''sqlc'' (map lowerASCII x))"
    using HasPrefix_append [of "''sqlc_''" "map lowerASCII x"]
      TrimPrefix_sqlc [of "''sqlc_'' @ map lowerASCII x"]
    by (simp only: convertFunctionExpr_Func identifier_def ToLower_sqlc ch_Ident.sel if_True
        drop_append append_Nil) simp
  then show ?thesis
    by (simp add: convertFunctionExpr_Func TrimPrefix_sqlc del: convertFunctionExpr.simps)
qed

theorem convertFunctionExpr_schema_witness:
  "strings_HasPrefix (identifier example_lib ''sqlc_arg'') ''sqlc_''
   \<and> FuncCall_Func (fst (convertFunctionExpr example_lib new_state
        (ch_FunctionExpr (ch_Ident ''sqlc_arg'' 30) None 30))) = Some (ast_FuncName ''sqlc'' ''arg'')
   \<and> \<not> strings_HasPrefix (identifier example_lib ''COUNT'') ''sqlc_''
   \<and> FuncCall_Func (fst (convertFunctionExpr example_lib new_state
        (ch_FunctionExpr (ch_Ident ''COUNT'' 7) None 7))) = Some (ast_FuncName [] ''count'')
   \<and> list_all isASCII ''Slice''
   \<and> FuncCall_Func (fst (convertFunctionExpr example_lib new_state
        (ch_FunctionExpr (ch_Ident (''sqlc_'' @ ''Slice'') 30) None 30))) =
       Some (ast_FuncName ''sqlc'' ''slice'')"
  using convertFunctionExpr_schema [of example_lib "ch_Ident ''sqlc_arg'' 30" new_state None 30
      "''Slice''" 30]
    convertFunctionExpr_schema [of example_lib "ch_Ident ''COUNT'' 7" new_state None 7 "''''" 7]
  by (simp add: identifier_def strings_ToLower_def isASCII_def lowerASCII_def
      strings_HasPrefix_def)

text \<open>
  C6, at \<open>WITH c AS (SELECT id FROM t WHERE id = ?) SELECT id FROM c WHERE id = ?\<close>. The
  counter is the only state of the converter and every marker gets the next number, but
  \<open>convertSelectQuery\<close> converts the WITH clause after the select list, FROM, WHERE,
  GROUP BY, HAVING and ORDER BY. So the marker that appears first, at offset 39 in the
  common table expression, gets the number 2, and the marker at offset 70 gets the
  number 1.
\<close>

theorem first_marker_of_with_query_gets_2:
  "fst (convert example_lib new_state (E_SelectQuery with_query)) = N_SelectStmt 1
   \<and> length (snd (snd (convert example_lib new_state (E_SelectQuery with_query)))) = 2
   \<and> WithClause (snd (snd (convert example_lib new_state (E_SelectQuery with_query))) ! 1)
       = Some (ast_WithClause
           (Some [N_CommonTableExpr (Some (ast_CommonTableExpr (Some ''c'') (N_SelectStmt 0) 5))]) 0)
   \<and> WhereClause (snd (snd (convert example_lib new_state (E_SelectQuery with_query))) ! 0)
       = ast_A_Expr 0 (Some [ast_String ''='']) (ast_String ''id'') (ast_ParamRef 2 39 False) 34
   \<and> WhereClause (snd (snd (convert example_lib new_state (E_SelectQuery with_query))) ! 1)
       = ast_A_Expr 0 (Some [ast_String ''='']) (ast_String ''id'') (ast_ParamRef 1 70 False) 65
   \<and> paramCount (fst (snd (convert example_lib new_state (E_SelectQuery with_query)))) = 2"
  by (simp add: with_query_def with_inner_def where_eq_marker_def table_ref_def table_name_def
      new_state_def new_cc_def new_SelectStmt_def next_addr_def zero_SelectStmt_def Let_def
      as_TableExpr_def as_JoinExpr_def as_TableIdentifier_def as_SelectQuery_def as_Ident_def
      convertIdent_def identifier_def strings_ToLower_def isASCII_def lowerASCII_def
      convertTableIdentifier_def convertPlaceHolder_def convertQueryParam_def)

text \<open>
  C2, at \<open>SELECT 1 UNION ALL SELECT 2\<close>. The converted statement is the node at address
  1; it carries the tag \<open>Union\<close>, the flag \<open>All\<close> and the select list of the left query,
  its right operand is the converted right query at address 0, and its left operand is
  address 1: the composite node itself, not a node for the left query.
\<close>

theorem union_left_operand_is_the_node_itself:
  "fst (convert example_lib new_state (E_SelectQuery select_1_union_all_select_2)) = N_SelectStmt 1
   \<and> length (snd (snd (convert example_lib new_state (E_SelectQuery select_1_union_all_select_2)))) = 2
   \<and> Op (snd (snd (convert example_lib new_state (E_SelectQuery select_1_union_all_select_2))) ! 1)
       = ast_Union
   \<and> All_flag (snd (snd (convert example_lib new_state (E_SelectQuery select_1_union_all_select_2))) ! 1)
   \<and> TargetList (snd (snd (convert example_lib new_state (E_SelectQuery select_1_union_all_select_2))) ! 1)
       = Some [ast_ResTarget None (ast_A_Const (ast_Integer 1) 7) 7]
   \<and> Rarg (snd (snd (convert example_lib new_state (E_SelectQuery select_1_union_all_select_2))) ! 1)
       = Some 0
   \<and> TargetList (snd (snd (convert example_lib new_state (E_SelectQuery select_1_union_all_select_2))) ! 0)
       = Some [ast_ResTarget None (ast_A_Const (ast_Integer 2) 26) 26]
   \<and> Larg (snd (snd (convert example_lib new_state (E_SelectQuery select_1_union_all_select_2))) ! 1)
       = Some 1"
  by (simp add: select_1_union_all_select_2_def select_2_def select_from_def number_def
      new_state_def new_cc_def new_SelectStmt_def next_addr_def zero_SelectStmt_def
      convertNumberLiteral_def strings_ContainsAny_def ParseInt_def ParseUint_def isDigit_def
      Let_def)





end
